theory Spec2Isabelle
  imports Main "HOL-Library.Word"
begin

unbundle bit_operations_syntax

section \<open>FLEXCAN CAN controller driver (drivers/net/can/flexcan.c)\<close>

text \<open>
  A shallow embedding of the driver's control and data path.  Registers are 32-bit words.
  Everything the driver does to its surroundings (register writes, delays, frames handed
  to the network stack, calls into the CAN core) is appended to a trace in program order;
  everything it obtains from its surroundings (register reads, buffer allocations, the
  regulator's return code) is taken from oracles carried in the device state, so that the
  theorems hold for every behaviour of the hardware and of the kernel.
\<close>

type_synonym u8 = "8 word"
type_synonym u16 = "16 word"
type_synonym u32 = "32 word"

subsection \<open>Register bits\<close>

text \<open>FLEXCAN module configuration register (CANMCR) bits.\<close>

abbreviation (input) FLEXCAN_MCR_MDIS :: u32 where "FLEXCAN_MCR_MDIS \<equiv> 0x80000000"
abbreviation (input) FLEXCAN_MCR_HALT :: u32 where "FLEXCAN_MCR_HALT \<equiv> 0x10000000"
abbreviation (input) FLEXCAN_MCR_FRZ_ACK :: u32 where "FLEXCAN_MCR_FRZ_ACK \<equiv> 0x01000000"
abbreviation (input) FLEXCAN_MCR_LPM_ACK :: u32 where "FLEXCAN_MCR_LPM_ACK \<equiv> 0x00100000"


text \<open>FLEXCAN control register (CANCTRL) bits.\<close>

definition FLEXCAN_CTRL_PRESDIV :: "u32 \<Rightarrow> u32" where
  "FLEXCAN_CTRL_PRESDIV x = push_bit 24 (x AND 0xff)"

definition FLEXCAN_CTRL_RJW :: "u32 \<Rightarrow> u32" where
  "FLEXCAN_CTRL_RJW x = push_bit 22 (x AND 0x03)"

definition FLEXCAN_CTRL_PSEG1 :: "u32 \<Rightarrow> u32" where
  "FLEXCAN_CTRL_PSEG1 x = push_bit 19 (x AND 0x07)"

definition FLEXCAN_CTRL_PSEG2 :: "u32 \<Rightarrow> u32" where
  "FLEXCAN_CTRL_PSEG2 x = push_bit 16 (x AND 0x07)"

definition FLEXCAN_CTRL_PROPSEG :: "u32 \<Rightarrow> u32" where
  "FLEXCAN_CTRL_PROPSEG x = x AND 0x07"

abbreviation (input) FLEXCAN_CTRL_BOFF_MSK :: u32 where "FLEXCAN_CTRL_BOFF_MSK \<equiv> 0x8000"
abbreviation (input) FLEXCAN_CTRL_ERR_MSK :: u32 where "FLEXCAN_CTRL_ERR_MSK \<equiv> 0x4000"
abbreviation (input) FLEXCAN_CTRL_CLK_SRC :: u32 where "FLEXCAN_CTRL_CLK_SRC \<equiv> 0x2000"
abbreviation (input) FLEXCAN_CTRL_LPB :: u32 where "FLEXCAN_CTRL_LPB \<equiv> 0x1000"
abbreviation (input) FLEXCAN_CTRL_TWRN_MSK :: u32 where "FLEXCAN_CTRL_TWRN_MSK \<equiv> 0x0800"
abbreviation (input) FLEXCAN_CTRL_RWRN_MSK :: u32 where "FLEXCAN_CTRL_RWRN_MSK \<equiv> 0x0400"
abbreviation (input) FLEXCAN_CTRL_SMP :: u32 where "FLEXCAN_CTRL_SMP \<equiv> 0x0080"
abbreviation (input) FLEXCAN_CTRL_LOM :: u32 where "FLEXCAN_CTRL_LOM \<equiv> 0x0008"

abbreviation (input) FLEXCAN_CTRL_ERR_STATE :: u32 where
  "FLEXCAN_CTRL_ERR_STATE \<equiv>
     FLEXCAN_CTRL_TWRN_MSK OR FLEXCAN_CTRL_RWRN_MSK OR FLEXCAN_CTRL_BOFF_MSK"

abbreviation (input) FLEXCAN_CTRL_ERR_ALL :: u32 where
  "FLEXCAN_CTRL_ERR_ALL \<equiv> FLEXCAN_CTRL_ERR_MSK OR FLEXCAN_CTRL_ERR_STATE"

text \<open>FLEXCAN error and status register (ESR) bits.\<close>

abbreviation (input) FLEXCAN_ESR_TWRN_INT :: u32 where "FLEXCAN_ESR_TWRN_INT \<equiv> 0x20000"
abbreviation (input) FLEXCAN_ESR_RWRN_INT :: u32 where "FLEXCAN_ESR_RWRN_INT \<equiv> 0x10000"
abbreviation (input) FLEXCAN_ESR_BIT1_ERR :: u32 where "FLEXCAN_ESR_BIT1_ERR \<equiv> 0x8000"
abbreviation (input) FLEXCAN_ESR_BIT0_ERR :: u32 where "FLEXCAN_ESR_BIT0_ERR \<equiv> 0x4000"
abbreviation (input) FLEXCAN_ESR_ACK_ERR :: u32 where "FLEXCAN_ESR_ACK_ERR \<equiv> 0x2000"
abbreviation (input) FLEXCAN_ESR_CRC_ERR :: u32 where "FLEXCAN_ESR_CRC_ERR \<equiv> 0x1000"
abbreviation (input) FLEXCAN_ESR_FRM_ERR :: u32 where "FLEXCAN_ESR_FRM_ERR \<equiv> 0x0800"
abbreviation (input) FLEXCAN_ESR_STF_ERR :: u32 where "FLEXCAN_ESR_STF_ERR \<equiv> 0x0400"
abbreviation (input) FLEXCAN_ESR_TX_WRN :: u32 where "FLEXCAN_ESR_TX_WRN \<equiv> 0x0200"
abbreviation (input) FLEXCAN_ESR_RX_WRN :: u32 where "FLEXCAN_ESR_RX_WRN \<equiv> 0x0100"
abbreviation (input) FLEXCAN_ESR_FLT_CONF_MASK :: u32 where "FLEXCAN_ESR_FLT_CONF_MASK \<equiv> 0x30"
abbreviation (input) FLEXCAN_ESR_FLT_CONF_ACTIVE :: u32 where "FLEXCAN_ESR_FLT_CONF_ACTIVE \<equiv> 0x00"
abbreviation (input) FLEXCAN_ESR_FLT_CONF_PASSIVE :: u32 where "FLEXCAN_ESR_FLT_CONF_PASSIVE \<equiv> 0x10"
abbreviation (input) FLEXCAN_ESR_BOFF_INT :: u32 where "FLEXCAN_ESR_BOFF_INT \<equiv> 0x4"
abbreviation (input) FLEXCAN_ESR_ERR_INT :: u32 where "FLEXCAN_ESR_ERR_INT \<equiv> 0x2"
abbreviation (input) FLEXCAN_ESR_WAK_INT :: u32 where "FLEXCAN_ESR_WAK_INT \<equiv> 0x1"

abbreviation (input) FLEXCAN_ESR_ERR_BUS :: u32 where
  "FLEXCAN_ESR_ERR_BUS \<equiv>
     FLEXCAN_ESR_BIT1_ERR OR FLEXCAN_ESR_BIT0_ERR OR FLEXCAN_ESR_ACK_ERR OR
     FLEXCAN_ESR_CRC_ERR OR FLEXCAN_ESR_FRM_ERR OR FLEXCAN_ESR_STF_ERR"

abbreviation (input) FLEXCAN_ESR_ERR_STATE :: u32 where
  "FLEXCAN_ESR_ERR_STATE \<equiv>
     FLEXCAN_ESR_TWRN_INT OR FLEXCAN_ESR_RWRN_INT OR FLEXCAN_ESR_BOFF_INT"

abbreviation (input) FLEXCAN_ESR_ALL_INT :: u32 where
  "FLEXCAN_ESR_ALL_INT \<equiv>
     FLEXCAN_ESR_TWRN_INT OR FLEXCAN_ESR_RWRN_INT OR FLEXCAN_ESR_BOFF_INT OR
     FLEXCAN_ESR_ERR_INT OR FLEXCAN_ESR_WAK_INT"

text \<open>FLEXCAN interrupt flag register (IFLAG) bits and message buffer fields.\<close>

abbreviation (input) FLEXCAN_RESERVED_BUF_ID :: nat where "FLEXCAN_RESERVED_BUF_ID \<equiv> 8"
abbreviation (input) FLEXCAN_TX_BUF_ID :: nat where "FLEXCAN_TX_BUF_ID \<equiv> 13"
abbreviation (input) FLEXCAN_IFLAG_TX_BUF :: u32 where "FLEXCAN_IFLAG_TX_BUF \<equiv> 0x2000"
abbreviation (input) FLEXCAN_IFLAG_RX_FIFO_OVERFLOW :: u32 where
  "FLEXCAN_IFLAG_RX_FIFO_OVERFLOW \<equiv> 0x80"
abbreviation (input) FLEXCAN_IFLAG_RX_FIFO_AVAILABLE :: u32 where
  "FLEXCAN_IFLAG_RX_FIFO_AVAILABLE \<equiv> 0x20"


definition FLEXCAN_MB_CNT_CODE :: "u32 \<Rightarrow> u32" where
  "FLEXCAN_MB_CNT_CODE x = push_bit 24 (x AND 0xf)"

abbreviation (input) FLEXCAN_MB_CNT_SRR :: u32 where "FLEXCAN_MB_CNT_SRR \<equiv> 0x400000"
abbreviation (input) FLEXCAN_MB_CNT_IDE :: u32 where "FLEXCAN_MB_CNT_IDE \<equiv> 0x200000"
abbreviation (input) FLEXCAN_MB_CNT_RTR :: u32 where "FLEXCAN_MB_CNT_RTR \<equiv> 0x100000"

abbreviation (input) FLEXCAN_TIMEOUT_US :: nat where "FLEXCAN_TIMEOUT_US \<equiv> 50"
abbreviation (input) FLEXCAN_NAPI_WEIGHT :: u32 where "FLEXCAN_NAPI_WEIGHT \<equiv> 8 + 2"

abbreviation (input) FLEXCAN_HAS_ERR005829 :: u32 where "FLEXCAN_HAS_ERR005829 \<equiv> 0x8"

subsection \<open>Constants of the included kernel headers\<close>

text \<open>
  The driver includes \<^verbatim>\<open>linux/can.h\<close>, \<^verbatim>\<open>linux/can/error.h\<close>, \<^verbatim>\<open>linux/can/dev.h\<close>,
  \<^verbatim>\<open>linux/can/netlink.h\<close> and \<^verbatim>\<open>errno.h\<close>, which are not part of the source file.
  The values below are the ones of the kernel's user-space ABI.
\<close>

abbreviation (input) CAN_EFF_FLAG :: u32 where "CAN_EFF_FLAG \<equiv> 0x80000000"
abbreviation (input) CAN_RTR_FLAG :: u32 where "CAN_RTR_FLAG \<equiv> 0x40000000"
abbreviation (input) CAN_ERR_FLAG :: u32 where "CAN_ERR_FLAG \<equiv> 0x20000000"
abbreviation (input) CAN_SFF_MASK :: u32 where "CAN_SFF_MASK \<equiv> 0x000007FF"
abbreviation (input) CAN_EFF_MASK :: u32 where "CAN_EFF_MASK \<equiv> 0x1FFFFFFF"
abbreviation (input) CAN_MAX_DLC :: u8 where "CAN_MAX_DLC \<equiv> 8"

abbreviation (input) CAN_ERR_CRTL :: u32 where "CAN_ERR_CRTL \<equiv> 0x00000004"
abbreviation (input) CAN_ERR_PROT :: u32 where "CAN_ERR_PROT \<equiv> 0x00000008"
abbreviation (input) CAN_ERR_ACK :: u32 where "CAN_ERR_ACK \<equiv> 0x00000020"
abbreviation (input) CAN_ERR_BUSOFF :: u32 where "CAN_ERR_BUSOFF \<equiv> 0x00000040"
abbreviation (input) CAN_ERR_BUSERROR :: u32 where "CAN_ERR_BUSERROR \<equiv> 0x00000080"

abbreviation (input) CAN_ERR_CRTL_RX_WARNING :: u8 where "CAN_ERR_CRTL_RX_WARNING \<equiv> 0x04"
abbreviation (input) CAN_ERR_CRTL_TX_WARNING :: u8 where "CAN_ERR_CRTL_TX_WARNING \<equiv> 0x08"
abbreviation (input) CAN_ERR_CRTL_RX_PASSIVE :: u8 where "CAN_ERR_CRTL_RX_PASSIVE \<equiv> 0x10"
abbreviation (input) CAN_ERR_CRTL_TX_PASSIVE :: u8 where "CAN_ERR_CRTL_TX_PASSIVE \<equiv> 0x20"
abbreviation (input) CAN_ERR_PROT_ACTIVE :: u8 where "CAN_ERR_PROT_ACTIVE \<equiv> 0x40"

abbreviation (input) CAN_CTRLMODE_LOOPBACK :: u32 where "CAN_CTRLMODE_LOOPBACK \<equiv> 0x01"
abbreviation (input) CAN_CTRLMODE_LISTENONLY :: u32 where "CAN_CTRLMODE_LISTENONLY \<equiv> 0x02"
abbreviation (input) CAN_CTRLMODE_3_SAMPLES :: u32 where "CAN_CTRLMODE_3_SAMPLES \<equiv> 0x04"

abbreviation (input) ETIMEDOUT :: int where "ETIMEDOUT \<equiv> 110"

text \<open>\<^verbatim>\<open>enum can_state\<close>, in the order of its enumerators.\<close>

datatype can_state =
    CAN_STATE_ERROR_ACTIVE
  | CAN_STATE_ERROR_WARNING
  | CAN_STATE_ERROR_PASSIVE
  | CAN_STATE_BUS_OFF
  | CAN_STATE_STOPPED
  | CAN_STATE_SLEEPING

text \<open>The integer value of an enumerator, which the comparisons of \<^verbatim>\<open>do_state\<close> use.\<close>

fun can_state_val :: "can_state \<Rightarrow> nat" where
  "can_state_val CAN_STATE_ERROR_ACTIVE = 0"
| "can_state_val CAN_STATE_ERROR_WARNING = 1"
| "can_state_val CAN_STATE_ERROR_PASSIVE = 2"
| "can_state_val CAN_STATE_BUS_OFF = 3"
| "can_state_val CAN_STATE_STOPPED = 4"
| "can_state_val CAN_STATE_SLEEPING = 5"

text \<open>\<^verbatim>\<open>struct can_frame\<close>: the payload is the array \<^verbatim>\<open>u8 data[8]\<close>.\<close>

record can_frame =
  can_id :: u32
  can_dlc :: u8
  data :: "u8 list"

record can_berr_counter =
  txerr :: u16
  rxerr :: u16

record can_bittiming =
  bitrate :: u32
  prop_seg :: u32
  phase_seg1 :: u32
  phase_seg2 :: u32
  sjw :: u32
  brp :: u32

subsection \<open>The device and its surroundings\<close>

text \<open>The registers of \<^verbatim>\<open>struct flexcan_regs\<close> that the driver accesses.\<close>

datatype flexcan_reg =
    MCR | CTRL | TIMER | RXGMASK | RX14MASK | RX15MASK | ECR | ESR
  | IMASK1 | IFLAG1 | RXFGMASK
  | MB_CAN_CTRL nat | MB_CAN_ID nat | MB_DATA nat nat

datatype irqreturn = IRQ_NONE | IRQ_HANDLED

datatype can_led_event = CAN_LED_EVENT_OPEN | CAN_LED_EVENT_STOP
  | CAN_LED_EVENT_TX | CAN_LED_EVENT_RX

text \<open>One entry of the trace for each effect on the surroundings.\<close>

datatype event =
    RegWrite flexcan_reg u32
  | Udelay nat
  | UsleepRange nat nat
  | NetifReceiveSkb can_frame
  | CanBusOff
  | NetdevErr
  | Printk
  | NetifStopQueue
  | NetifWakeQueue
  | NapiSchedule
  | NapiComplete
  | NapiReschedule
  | CanLedEvent can_led_event
  | TransceiverSwitch bool
  | RegulatorEnable int
  | RegulatorDisable int

text \<open>How \<^verbatim>\<open>flexcan_transceiver_enable\<close> reaches the transceiver: through the platform
  data's switch callback, not at all, or through the regulator.\<close>

datatype xceiver = XceiverSwitch | XceiverNone | XceiverRegulator

text \<open>
  \<^verbatim>\<open>struct flexcan_priv\<close> with the fields of \<^verbatim>\<open>struct can_priv\<close>,
  \<^verbatim>\<open>struct net_device_stats\<close>, \<^verbatim>\<open>struct can_device_stats\<close> and
  \<^verbatim>\<open>struct can_rx_offload\<close> that the driver uses, followed by the surroundings:
  \<^item> \<open>hw_read n r\<close> is the value the hardware returns when the \<open>n\<close>-th register read
    of the run is a read of register \<open>r\<close>; \<open>nreads\<close> counts the reads so far;
  \<^item> \<open>skb_alloc n\<close> is the result of the \<open>n\<close>-th buffer allocation: \<open>None\<close> when it
    fails, otherwise the frame inside the fresh buffer; \<open>nallocs\<close> counts them;
  \<^item> \<open>regulator_enable_rc\<close> and \<open>regulator_disable_rc\<close> are what
    \<^verbatim>\<open>regulator_enable\<close> and \<^verbatim>\<open>regulator_disable\<close> return (0 for success); the
    trace entry of such a call records the code it returned;
  \<^item> \<open>trace\<close> lists the effects so far, oldest first.
  The statistics counters are unbounded naturals: no claim depends on their wrap-around.
\<close>

record flexcan_priv =
  state :: can_state
  ctrlmode :: u32
  bittiming :: can_bittiming
  features :: u32
  reg_ctrl_default :: u32
  xceiver_kind :: xceiver
  echo_skb :: "can_frame option"
  skb_queue :: "can_frame list"
  skb_queue_len_max :: u32
  rx_packets :: nat
  rx_bytes :: nat
  rx_dropped :: nat
  rx_errors :: nat
  rx_over_errors :: nat
  tx_packets :: nat
  tx_bytes :: nat
  tx_dropped :: nat
  tx_errors :: nat
  bus_error :: nat
  error_warning :: nat
  error_passive :: nat
  hw_read :: "nat \<Rightarrow> flexcan_reg \<Rightarrow> u32"
  nreads :: nat
  skb_alloc :: "nat \<Rightarrow> can_frame option"
  nallocs :: nat
  regulator_enable_rc :: int
  regulator_disable_rc :: int
  trace :: "event list"

definition emit :: "event \<Rightarrow> flexcan_priv \<Rightarrow> flexcan_priv" where
  "emit e s = s\<lparr>trace := trace s @ [e]\<rparr>"

definition flexcan_read :: "flexcan_reg \<Rightarrow> flexcan_priv \<Rightarrow> u32 \<times> flexcan_priv" where
  "flexcan_read r s = (hw_read s (nreads s) r, s\<lparr>nreads := Suc (nreads s)\<rparr>)"

definition flexcan_write :: "u32 \<Rightarrow> flexcan_reg \<Rightarrow> flexcan_priv \<Rightarrow> flexcan_priv" where
  "flexcan_write val r s = emit (RegWrite r val) s"

text \<open>\<^verbatim>\<open>alloc_can_skb\<close> and \<^verbatim>\<open>alloc_can_err_skb\<close>: the next answer of the allocator.\<close>

definition alloc_skb :: "flexcan_priv \<Rightarrow> can_frame option \<times> flexcan_priv" where
  "alloc_skb s = (skb_alloc s (nallocs s), s\<lparr>nallocs := Suc (nallocs s)\<rparr>)"

subsection \<open>Error-state monitor\<close>

definition flexcan_get_berr_counter :: "flexcan_priv \<Rightarrow> can_berr_counter \<times> flexcan_priv" where
  "flexcan_get_berr_counter s =
     (let (reg, s) = flexcan_read ECR s
      in (\<lparr>txerr = ucast (drop_bit 0 reg AND 0xff), rxerr = ucast (drop_bit 8 reg AND 0xff)\<rparr>, s))"

text \<open>The block under \<^verbatim>\<open>case CAN_STATE_ERROR_WARNING\<close> of \<^verbatim>\<open>do_state\<close>, which the case
  \<^verbatim>\<open>CAN_STATE_ERROR_ACTIVE\<close> falls through to.\<close>

definition do_state_from_warning ::
  "can_state \<Rightarrow> can_berr_counter \<Rightarrow> can_frame \<Rightarrow> flexcan_priv \<Rightarrow> can_frame \<times> flexcan_priv" where
  "do_state_from_warning new_state bec cf s =
     (if can_state_val new_state \<ge> can_state_val CAN_STATE_ERROR_PASSIVE \<and>
         can_state_val new_state \<le> can_state_val CAN_STATE_BUS_OFF
      then (cf\<lparr>can_id := can_id cf OR CAN_ERR_CRTL,
               data := (data cf)[1 := (if txerr bec > rxerr bec
                                       then CAN_ERR_CRTL_TX_PASSIVE
                                       else CAN_ERR_CRTL_RX_PASSIVE)]\<rparr>,
            s\<lparr>error_passive := error_passive s + 1\<rparr>)
      else (cf, s))"

definition do_state_from_active ::
  "can_state \<Rightarrow> can_berr_counter \<Rightarrow> can_frame \<Rightarrow> flexcan_priv \<Rightarrow> can_frame \<times> flexcan_priv" where
  "do_state_from_active new_state bec cf s =
     (let (cf, s) =
        (if can_state_val new_state \<ge> can_state_val CAN_STATE_ERROR_WARNING \<and>
            can_state_val new_state \<le> can_state_val CAN_STATE_BUS_OFF
         then (cf\<lparr>can_id := can_id cf OR CAN_ERR_CRTL,
                  data := (data cf)[1 := (if txerr bec > rxerr bec
                                          then CAN_ERR_CRTL_TX_WARNING
                                          else CAN_ERR_CRTL_RX_WARNING)]\<rparr>,
               s\<lparr>error_warning := error_warning s + 1\<rparr>)
         else (cf, s))
      in do_state_from_warning new_state bec cf s)"

text \<open>\<^verbatim>\<open>can_bus_off\<close> belongs to the CAN core: the link-down signal.\<close>

definition do_state ::
  "can_frame \<Rightarrow> can_state \<Rightarrow> flexcan_priv \<Rightarrow> can_frame \<times> flexcan_priv" where
  "do_state cf new_state s =
     (let (bec, s) = flexcan_get_berr_counter s;
          (cf, s) = (case state s of
              CAN_STATE_ERROR_ACTIVE \<Rightarrow> do_state_from_active new_state bec cf s
            | CAN_STATE_ERROR_WARNING \<Rightarrow> do_state_from_warning new_state bec cf s
            | CAN_STATE_BUS_OFF \<Rightarrow> (cf, emit NetdevErr s)
            | _ \<Rightarrow> (cf, s))
      in (case new_state of
            CAN_STATE_ERROR_ACTIVE \<Rightarrow>
              (cf\<lparr>can_id := can_id cf OR CAN_ERR_PROT,
                  data := (data cf)[2 := CAN_ERR_PROT_ACTIVE]\<rparr>, s)
          | CAN_STATE_BUS_OFF \<Rightarrow>
              (cf\<lparr>can_id := can_id cf OR CAN_ERR_BUSOFF\<rparr>, emit CanBusOff s)
          | _ \<Rightarrow> (cf, s)))"

text \<open>The state that \<^verbatim>\<open>flexcan_poll_state\<close> derives from the status register, its local
  \<^verbatim>\<open>new_state\<close>.\<close>

definition flexcan_new_state :: "u32 \<Rightarrow> can_state" where
  "flexcan_new_state reg_esr =
     (let flt = reg_esr AND FLEXCAN_ESR_FLT_CONF_MASK
      in if flt = FLEXCAN_ESR_FLT_CONF_ACTIVE
         then (if reg_esr AND (FLEXCAN_ESR_TX_WRN OR FLEXCAN_ESR_RX_WRN) = 0
               then CAN_STATE_ERROR_ACTIVE
               else CAN_STATE_ERROR_WARNING)
         else if flt = FLEXCAN_ESR_FLT_CONF_PASSIVE
         then CAN_STATE_ERROR_PASSIVE
         else CAN_STATE_BUS_OFF)"

definition flexcan_poll_state :: "u32 \<Rightarrow> flexcan_priv \<Rightarrow> int \<times> flexcan_priv" where
  "flexcan_poll_state reg_esr s =
     (let new_state = flexcan_new_state reg_esr
      in if new_state = state s then (0, s)
         else (case alloc_skb s of
                 (None, s) \<Rightarrow> (0, s)
               | (Some cf, s) \<Rightarrow>
                   (let (cf, s) = do_state cf new_state s;
                        s = s\<lparr>state := new_state\<rparr>;
                        s = emit (NetifReceiveSkb cf) s;
                        s = s\<lparr>rx_packets := rx_packets s + 1\<rparr>;
                        s = s\<lparr>rx_bytes := rx_bytes s + unat (can_dlc cf)\<rparr>
                    in (1, s))))"

text \<open>The table of the specification: the state as a function of the 2-bit
  fault-confinement field and of the two warning bits.\<close>

definition esr_flt_conf :: "u32 \<Rightarrow> u32" where
  "esr_flt_conf reg_esr = drop_bit 4 reg_esr AND 3"

definition spec_state_table :: "u32 \<Rightarrow> bool \<Rightarrow> bool \<Rightarrow> can_state" where
  "spec_state_table fault tx_wrn rx_wrn =
     (if fault = 0 \<and> \<not> tx_wrn \<and> \<not> rx_wrn then CAN_STATE_ERROR_ACTIVE
      else if fault = 0 then CAN_STATE_ERROR_WARNING
      else if fault = 1 then CAN_STATE_ERROR_PASSIVE
      else CAN_STATE_BUS_OFF)"


subsection \<open>Chip control\<close>

text \<open>
  The polling loops \<^verbatim>\<open>while (timeout-- && cond(flexcan_read(&regs->mcr))) delay;\<close>.
  When \<^verbatim>\<open>timeout\<close> has reached 0 the register is not read; otherwise it is read, and the
  loop delays and goes on while the condition holds.
\<close>

fun flexcan_poll_mcr :: "(u32 \<Rightarrow> bool) \<Rightarrow> event \<Rightarrow> nat \<Rightarrow> flexcan_priv \<Rightarrow> flexcan_priv" where
  "flexcan_poll_mcr cond delay 0 s = s"
| "flexcan_poll_mcr cond delay (Suc timeout) s =
     (let (reg, s) = flexcan_read MCR s
      in if cond reg then flexcan_poll_mcr cond delay timeout (emit delay s) else s)"


definition flexcan_transceiver_disable :: "flexcan_priv \<Rightarrow> int \<times> flexcan_priv" where
  "flexcan_transceiver_disable s =
     (case xceiver_kind s of
        XceiverSwitch \<Rightarrow> (0, emit (TransceiverSwitch False) s)
      | XceiverNone \<Rightarrow> (0, s)
      | XceiverRegulator \<Rightarrow>
          (regulator_disable_rc s, emit (RegulatorDisable (regulator_disable_rc s)) s))"


definition flexcan_chip_disable :: "flexcan_priv \<Rightarrow> int \<times> flexcan_priv" where
  "flexcan_chip_disable s =
     (let timeout = FLEXCAN_TIMEOUT_US div 10;
          (reg, s) = flexcan_read MCR s;
          reg = reg OR FLEXCAN_MCR_MDIS;
          s = flexcan_write reg MCR s;
          s = flexcan_poll_mcr (\<lambda>r. \<not> (r AND FLEXCAN_MCR_LPM_ACK \<noteq> 0)) (Udelay 20) timeout s;
          (reg, s) = flexcan_read MCR s
      in if \<not> (reg AND FLEXCAN_MCR_LPM_ACK \<noteq> 0) then (- ETIMEDOUT, s) else (0, s))"

text \<open>
  \<^verbatim>\<open>flexcan_chip_freeze\<close> divides by the bit rate: with a bit rate of 0 the kernel traps
  on the division and the function does not return, which is the result \<open>None\<close>.
\<close>

definition flexcan_chip_freeze :: "flexcan_priv \<Rightarrow> (int \<times> flexcan_priv) option" where
  "flexcan_chip_freeze s =
     (if bitrate (bittiming s) = 0 then None
      else
        (let timeout = unat ((1000 * 1000 * 10 :: u32) div bitrate (bittiming s));
             (reg, s) = flexcan_read MCR s;
             reg = reg OR FLEXCAN_MCR_HALT;
             s = flexcan_write reg MCR s;
             s = flexcan_poll_mcr (\<lambda>r. \<not> (r AND FLEXCAN_MCR_FRZ_ACK \<noteq> 0))
                   (UsleepRange 100 200) timeout s;
             (reg, s) = flexcan_read MCR s
         in if \<not> (reg AND FLEXCAN_MCR_FRZ_ACK \<noteq> 0) then Some (- ETIMEDOUT, s)
            else Some (0, s)))"



subsection \<open>Bit timing\<close>

text \<open>The value \<^verbatim>\<open>flexcan_set_bittiming\<close> computes from the control register it has read.
  Debug and info output is not modelled, nor are the register reads that only feed it.\<close>

definition flexcan_bittiming_reg :: "can_bittiming \<Rightarrow> u32 \<Rightarrow> u32 \<Rightarrow> u32" where
  "flexcan_bittiming_reg bt mode reg =
     (let reg = reg AND NOT (FLEXCAN_CTRL_PRESDIV 0xff OR
                             FLEXCAN_CTRL_RJW 0x3 OR
                             FLEXCAN_CTRL_PSEG1 0x7 OR
                             FLEXCAN_CTRL_PSEG2 0x7 OR
                             FLEXCAN_CTRL_PROPSEG 0x7 OR
                             FLEXCAN_CTRL_LPB OR
                             FLEXCAN_CTRL_SMP OR
                             FLEXCAN_CTRL_LOM);
          reg = reg OR (FLEXCAN_CTRL_PRESDIV (brp bt - 1) OR
                        FLEXCAN_CTRL_PSEG1 (phase_seg1 bt - 1) OR
                        FLEXCAN_CTRL_PSEG2 (phase_seg2 bt - 1) OR
                        FLEXCAN_CTRL_RJW (sjw bt - 1) OR
                        FLEXCAN_CTRL_PROPSEG (prop_seg bt - 1));
          reg = (if mode AND CAN_CTRLMODE_LOOPBACK \<noteq> 0 then reg OR FLEXCAN_CTRL_LPB else reg);
          reg = (if mode AND CAN_CTRLMODE_LISTENONLY \<noteq> 0 then reg OR FLEXCAN_CTRL_LOM else reg);
          reg = (if mode AND CAN_CTRLMODE_3_SAMPLES \<noteq> 0 then reg OR FLEXCAN_CTRL_SMP else reg)
      in reg)"

definition flexcan_set_bittiming :: "flexcan_priv \<Rightarrow> flexcan_priv" where
  "flexcan_set_bittiming s =
     (let (reg, s) = flexcan_read CTRL s;
          reg = flexcan_bittiming_reg (bittiming s) (ctrlmode s) reg
      in flexcan_write reg CTRL s)"


text \<open>The bit fields of the control register in which the macros
  \<^verbatim>\<open>FLEXCAN_CTRL_PRESDIV\<close>, \<^verbatim>\<open>FLEXCAN_CTRL_RJW\<close>, \<^verbatim>\<open>FLEXCAN_CTRL_PSEG1\<close>,
  \<^verbatim>\<open>FLEXCAN_CTRL_PSEG2\<close> and \<^verbatim>\<open>FLEXCAN_CTRL_PROPSEG\<close> place their arguments, read
  back from a register value.\<close>

definition ctrl_presdiv :: "u32 \<Rightarrow> u32" where
  "ctrl_presdiv reg = drop_bit 24 reg AND 0xff"

definition ctrl_rjw :: "u32 \<Rightarrow> u32" where
  "ctrl_rjw reg = drop_bit 22 reg AND 0x03"

definition ctrl_pseg1 :: "u32 \<Rightarrow> u32" where
  "ctrl_pseg1 reg = drop_bit 19 reg AND 0x07"

definition ctrl_pseg2 :: "u32 \<Rightarrow> u32" where
  "ctrl_pseg2 reg = drop_bit 16 reg AND 0x07"

definition ctrl_propseg :: "u32 \<Rightarrow> u32" where
  "ctrl_propseg reg = reg AND 0x07"

subsection \<open>Starting and stopping the chip\<close>






definition flexcan_chip_stop :: "flexcan_priv \<Rightarrow> flexcan_priv option" where
  "flexcan_chip_stop s =
     (case flexcan_chip_freeze s of
        None \<Rightarrow> None
      | Some (_, s) \<Rightarrow>
          (let (_, s) = flexcan_chip_disable s;
               s = flexcan_write 0 IMASK1 s;
               s = flexcan_write (reg_ctrl_default s AND NOT FLEXCAN_CTRL_ERR_ALL) CTRL s;
               (_, s) = flexcan_transceiver_disable s
           in Some (s\<lparr>state := CAN_STATE_STOPPED\<rparr>)))"

subsection \<open>Receive queue\<close>

text \<open>
  \<^verbatim>\<open>fls\<close> is the kernel's find-last-set, which the source file uses but does not define:
  the position, counted from 1, of the most significant set bit, and 0 for 0.
\<close>

fun fls_nat :: "nat \<Rightarrow> nat" where
  "fls_nat n = (if n = 0 then 0 else Suc (fls_nat (n div 2)))"

declare fls_nat.simps [simp del]

definition fls :: "u32 \<Rightarrow> nat" where
  "fls x = fls_nat (unat x)"

text \<open>
  \<^verbatim>\<open>can_rx_offload_init_queue\<close>: \<^verbatim>\<open>skb_queue_len_max\<close> is a \<^verbatim>\<open>u32\<close>, so the shift and
  the multiplication are taken modulo \<open>2 ^ 32\<close>.
\<close>

definition can_rx_offload_init_queue :: "u32 \<Rightarrow> flexcan_priv \<Rightarrow> int \<times> flexcan_priv" where
  "can_rx_offload_init_queue weight s =
     (let s = s\<lparr>skb_queue_len_max := push_bit (fls weight) 2\<rparr>;
          s = s\<lparr>skb_queue_len_max := skb_queue_len_max s * 4\<rparr>;
          s = s\<lparr>skb_queue := []\<rparr>
      in (0, s))"

definition can_rx_offload_add_fifo :: "u32 \<Rightarrow> flexcan_priv \<Rightarrow> int \<times> flexcan_priv" where
  "can_rx_offload_add_fifo weight s = can_rx_offload_init_queue weight s"

text \<open>The queue depth in the words of the specification: four times the polling weight
  rounded up to the next power of two.\<close>

definition roundup_pow_of_two :: "nat \<Rightarrow> nat" where
  "roundup_pow_of_two n = (if n \<le> 1 then 1 else 2 ^ fls_nat (n - 1))"

definition spec_queue_len_max :: "nat \<Rightarrow> nat" where
  "spec_queue_len_max weight = 4 * roundup_pow_of_two weight"

subsection \<open>Receive path\<close>

text \<open>\<^verbatim>\<open>get_can_dlc\<close> of \<^verbatim>\<open>linux/can/dev.h\<close>: the length code, at most 8.\<close>

definition get_can_dlc :: "u8 \<Rightarrow> u8" where
  "get_can_dlc i = min i CAN_MAX_DLC"

text \<open>\<^verbatim>\<open>be32_to_cpup\<close> at \<^verbatim>\<open>&cf->data[off]\<close>: the four bytes from \<open>off\<close> on, most
  significant first.\<close>

definition be32_to_cpup :: "u8 list \<Rightarrow> nat \<Rightarrow> u32" where
  "be32_to_cpup bs off =
     push_bit 24 (ucast (bs ! off)) OR push_bit 16 (ucast (bs ! (off + 1))) OR
     push_bit 8 (ucast (bs ! (off + 2))) OR ucast (bs ! (off + 3))"

text \<open>\<^verbatim>\<open>*(__be32 *)(cf->data + off) = cpu_to_be32(w)\<close>: stores the four bytes of \<open>w\<close>,
  most significant first.\<close>

definition store_be32 :: "u8 list \<Rightarrow> nat \<Rightarrow> u32 \<Rightarrow> u8 list" where
  "store_be32 bs off w =
     bs[off := ucast (drop_bit 24 w), off + 1 := ucast (drop_bit 16 w),
        off + 2 := ucast (drop_bit 8 w), off + 3 := ucast w]"

text \<open>The decoding of the receive mailbox in \<^verbatim>\<open>flexcan_mailbox_read\<close>, into the frame
  \<open>cf\<close> of the buffer just allocated.\<close>

definition flexcan_mailbox_decode :: "can_frame \<Rightarrow> flexcan_priv \<Rightarrow> can_frame \<times> flexcan_priv" where
  "flexcan_mailbox_decode cf s =
     (let (reg_ctrl, s) = flexcan_read (MB_CAN_CTRL 0) s;
          (reg_id, s) = flexcan_read (MB_CAN_ID 0) s;
          cf = (if reg_ctrl AND FLEXCAN_MB_CNT_IDE \<noteq> 0
                then cf\<lparr>can_id := (drop_bit 0 reg_id AND CAN_EFF_MASK) OR CAN_EFF_FLAG\<rparr>
                else cf\<lparr>can_id := drop_bit 18 reg_id AND CAN_SFF_MASK\<rparr>);
          cf = (if reg_ctrl AND FLEXCAN_MB_CNT_RTR \<noteq> 0
                then cf\<lparr>can_id := can_id cf OR CAN_RTR_FLAG\<rparr> else cf);
          cf = cf\<lparr>can_dlc := get_can_dlc (ucast (drop_bit 16 reg_ctrl AND 0xf))\<rparr>;
          (d0, s) = flexcan_read (MB_DATA 0 0) s;
          cf = cf\<lparr>data := store_be32 (data cf) 0 d0\<rparr>;
          (d1, s) = flexcan_read (MB_DATA 0 1) s;
          cf = cf\<lparr>data := store_be32 (data cf) 4 d1\<rparr>
      in (cf, s))"

text \<open>\<^verbatim>\<open>flexcan_mailbox_read\<close> returns 0 when the FIFO holds no frame and 1 otherwise;
  \<^verbatim>\<open>*skb\<close>, which the caller has set to \<^verbatim>\<open>NULL\<close>, is the second component.  The
  parameter \<^verbatim>\<open>drop\<close> is \<open>drop_flag\<close> here.\<close>

definition flexcan_mailbox_read ::
  "bool \<Rightarrow> flexcan_priv \<Rightarrow> (nat \<times> can_frame option) \<times> flexcan_priv" where
  "flexcan_mailbox_read drop_flag s =
     (let (reg_iflag1, s) = flexcan_read IFLAG1 s
      in if \<not> (reg_iflag1 AND FLEXCAN_IFLAG_RX_FIFO_AVAILABLE \<noteq> 0) then ((0, None), s)
         else
           (let (skb, s) = (if \<not> drop_flag then alloc_skb s else (None, s));
                (skb, s) = (case skb of
                              None \<Rightarrow> (None, s)
                            | Some cf \<Rightarrow> (let (cf, s) = flexcan_mailbox_decode cf s
                                          in (Some cf, s)));
                s = flexcan_write FLEXCAN_IFLAG_RX_FIFO_AVAILABLE IFLAG1 s;
                (_, s) = flexcan_read TIMER s
            in ((1, skb), s)))"

definition can_rx_offload_offload_one :: "flexcan_priv \<Rightarrow> can_frame option \<times> flexcan_priv" where
  "can_rx_offload_offload_one s =
     (let drop_flag = (length (skb_queue s) > unat (skb_queue_len_max s));
          ((r, skb), s) = flexcan_mailbox_read drop_flag s;
          s = (if r \<noteq> 0 \<and> skb = None then s\<lparr>rx_dropped := rx_dropped s + 1\<rparr> else s)
      in (skb, s))"

definition skb_queue_tail :: "can_frame \<Rightarrow> flexcan_priv \<Rightarrow> flexcan_priv" where
  "skb_queue_tail skb s = s\<lparr>skb_queue := skb_queue s @ [skb]\<rparr>"

text \<open>The loop of \<^verbatim>\<open>can_rx_offload_irq_offload_fifo\<close>.  It ends because a frame is only
  returned while the queue is not longer than its maximum, and each returned frame makes
  the queue longer.\<close>

function can_rx_offload_irq_offload_fifo_loop :: "nat \<Rightarrow> flexcan_priv \<Rightarrow> nat \<times> flexcan_priv" where
  "can_rx_offload_irq_offload_fifo_loop received s =
     (case can_rx_offload_offload_one s of
        (None, s') \<Rightarrow> (received, s')
      | (Some skb, s') \<Rightarrow>
          can_rx_offload_irq_offload_fifo_loop (Suc received) (skb_queue_tail skb s'))"
  by pat_completeness auto
termination
  by (relation "measure (\<lambda>(received, s). Suc (unat (skb_queue_len_max s)) - length (skb_queue s))")
    (auto simp: can_rx_offload_offload_one_def flexcan_mailbox_read_def flexcan_mailbox_decode_def
      flexcan_read_def flexcan_write_def emit_def alloc_skb_def skb_queue_tail_def Let_def
      split: if_splits option.splits prod.splits)

declare can_rx_offload_irq_offload_fifo_loop.simps [simp del]

definition can_rx_offload_irq_offload_fifo :: "flexcan_priv \<Rightarrow> nat \<times> flexcan_priv" where
  "can_rx_offload_irq_offload_fifo s =
     (let (received, s) = can_rx_offload_irq_offload_fifo_loop 0 s;
          s = (if received \<noteq> 0 then emit NapiSchedule s else s)
      in (received, s))"


text \<open>The loop of \<^verbatim>\<open>can_rx_offload_napi_poll\<close>; \<^verbatim>\<open>skb_dequeue\<close> takes the head of the
  queue, and \<^verbatim>\<open>cf->len\<close> is the length code of the frame.\<close>

function can_rx_offload_napi_poll_loop :: "int \<Rightarrow> int \<Rightarrow> flexcan_priv \<Rightarrow> int \<times> flexcan_priv" where
  "can_rx_offload_napi_poll_loop work_done quota s =
     (if work_done < quota
      then (case skb_queue s of
              [] \<Rightarrow> (work_done, s)
            | skb # rest \<Rightarrow>
                (let s = s\<lparr>skb_queue := rest\<rparr>;
                     s = s\<lparr>rx_packets := rx_packets s + 1\<rparr>;
                     s = s\<lparr>rx_bytes := rx_bytes s + unat (can_dlc skb)\<rparr>;
                     s = emit (NetifReceiveSkb skb) s
                 in can_rx_offload_napi_poll_loop (work_done + 1) quota s))
      else (work_done, s))"
  by pat_completeness auto
termination
  by (relation "measure (\<lambda>(work_done, quota, s). nat (quota - work_done))") auto

declare can_rx_offload_napi_poll_loop.simps [simp del]

definition can_rx_offload_napi_poll :: "int \<Rightarrow> flexcan_priv \<Rightarrow> int \<times> flexcan_priv" where
  "can_rx_offload_napi_poll quota s =
     (let (work_done, s) = can_rx_offload_napi_poll_loop 0 quota s;
          s = (if work_done < quota
               then (let s = emit NapiComplete s
                     in if skb_queue s \<noteq> [] then emit NapiReschedule s else s)
               else s);
          s = emit (CanLedEvent CAN_LED_EVENT_RX) s
      in (work_done, s))"

subsection \<open>Transmit path\<close>

text \<open>
  Helpers of the CAN core that the source file calls but does not define:
  \<^verbatim>\<open>can_dropped_invalid_skb\<close> rejects a frame whose length code exceeds 8 (its checks of
  the buffer itself are not modelled), \<^verbatim>\<open>can_put_echo_skb\<close> keeps the frame for the
  echo, and \<^verbatim>\<open>can_get_echo_skb\<close> hands it back and returns its length, 0 when there is
  none.
\<close>

definition can_dropped_invalid_skb :: "can_frame \<Rightarrow> bool" where
  "can_dropped_invalid_skb cf = (can_dlc cf > CAN_MAX_DLC)"

definition can_put_echo_skb :: "can_frame \<Rightarrow> flexcan_priv \<Rightarrow> flexcan_priv" where
  "can_put_echo_skb cf s = s\<lparr>echo_skb := Some cf\<rparr>"

definition can_get_echo_skb :: "flexcan_priv \<Rightarrow> nat \<times> flexcan_priv" where
  "can_get_echo_skb s =
     (case echo_skb s of
        None \<Rightarrow> (0, s)
      | Some cf \<Rightarrow> (unat (can_dlc cf), s\<lparr>echo_skb := None\<rparr>))"

text \<open>\<^verbatim>\<open>flexcan_start_xmit\<close> always returns \<^verbatim>\<open>NETDEV_TX_OK\<close>; the model returns the
  device.\<close>

definition flexcan_start_xmit :: "can_frame \<Rightarrow> flexcan_priv \<Rightarrow> flexcan_priv" where
  "flexcan_start_xmit cf s =
     (let ctrl = FLEXCAN_MB_CNT_CODE 0xc OR push_bit 16 (ucast (can_dlc cf))
      in if can_dropped_invalid_skb cf then s\<lparr>tx_dropped := tx_dropped s + 1\<rparr>
         else
           (let s = emit NetifStopQueue s;
                (can_id', ctrl) =
                   (if can_id cf AND CAN_EFF_FLAG \<noteq> 0
                    then (can_id cf AND CAN_EFF_MASK,
                          ctrl OR (FLEXCAN_MB_CNT_IDE OR FLEXCAN_MB_CNT_SRR))
                    else (push_bit 18 (can_id cf AND CAN_SFF_MASK), ctrl));
                ctrl = (if can_id cf AND CAN_RTR_FLAG \<noteq> 0
                        then ctrl OR FLEXCAN_MB_CNT_RTR else ctrl);
                s = (if can_dlc cf > 0
                     then flexcan_write (be32_to_cpup (data cf) 0)
                            (MB_DATA FLEXCAN_TX_BUF_ID 0) s
                     else s);
                s = (if can_dlc cf > 3
                     then flexcan_write (be32_to_cpup (data cf) 4)
                            (MB_DATA FLEXCAN_TX_BUF_ID 1) s
                     else s);
                s = can_put_echo_skb cf s;
                s = flexcan_write can_id' (MB_CAN_ID FLEXCAN_TX_BUF_ID) s;
                s = flexcan_write ctrl (MB_CAN_CTRL FLEXCAN_TX_BUF_ID) s
            in if features s AND FLEXCAN_HAS_ERR005829 \<noteq> 0
               then flexcan_write 0x0 (MB_CAN_CTRL FLEXCAN_RESERVED_BUF_ID)
                      (flexcan_write 0x0 (MB_CAN_CTRL FLEXCAN_RESERVED_BUF_ID) s)
               else s))"

text \<open>The value last written to a register, if any.\<close>

fun last_write :: "flexcan_reg \<Rightarrow> event list \<Rightarrow> u32 option" where
  "last_write r [] = None"
| "last_write r (e # es) =
     (case last_write r es of
        Some v \<Rightarrow> Some v
      | None \<Rightarrow> (case e of RegWrite r' v \<Rightarrow> (if r' = r then Some v else None) | _ \<Rightarrow> None))"

text \<open>
  Loop-back: the receive mailbox presents the words last written to the transmit
  mailbox (0 for a word never written), and the FIFO reports a frame available.
\<close>

definition written :: "flexcan_reg \<Rightarrow> event list \<Rightarrow> u32" where
  "written r tr = (case last_write r tr of Some v \<Rightarrow> v | None \<Rightarrow> 0)"

definition loopback_read :: "event list \<Rightarrow> nat \<Rightarrow> flexcan_reg \<Rightarrow> u32" where
  "loopback_read tr n r =
     (case r of
        IFLAG1 \<Rightarrow> FLEXCAN_IFLAG_RX_FIFO_AVAILABLE
      | MB_CAN_CTRL i \<Rightarrow> (if i = 0 then written (MB_CAN_CTRL FLEXCAN_TX_BUF_ID) tr else 0)
      | MB_CAN_ID i \<Rightarrow> (if i = 0 then written (MB_CAN_ID FLEXCAN_TX_BUF_ID) tr else 0)
      | MB_DATA i j \<Rightarrow> (if i = 0 then written (MB_DATA FLEXCAN_TX_BUF_ID j) tr else 0)
      | _ \<Rightarrow> 0)"

subsection \<open>Interrupt dispatcher\<close>

text \<open>
  \<^verbatim>\<open>flexcan_napi_irq\<close> up to its \<^verbatim>\<open>return\<close> statement: the first component is the
  value of the local variable \<^verbatim>\<open>handled\<close> at that point.
\<close>

definition flexcan_napi_irq_body :: "flexcan_priv \<Rightarrow> irqreturn \<times> flexcan_priv" where
  "flexcan_napi_irq_body s =
     (let handled = IRQ_NONE;
          (reg_iflag1, s) = flexcan_read IFLAG1 s;
          (reg_esr, s) = flexcan_read ESR s;
          (handled, s) =
             (if reg_iflag1 AND FLEXCAN_IFLAG_RX_FIFO_AVAILABLE \<noteq> 0
              then (IRQ_HANDLED, snd (can_rx_offload_irq_offload_fifo s))
              else (handled, s));
          (handled, s) =
             (if reg_iflag1 AND FLEXCAN_IFLAG_RX_FIFO_OVERFLOW \<noteq> 0
              then (let s = flexcan_write FLEXCAN_IFLAG_RX_FIFO_OVERFLOW IFLAG1 s;
                        s = s\<lparr>rx_over_errors := rx_over_errors s + 1\<rparr>;
                        s = s\<lparr>rx_errors := rx_errors s + 1\<rparr>
                    in (IRQ_HANDLED, s))
              else (handled, s));
          (handled, s) =
             (if reg_iflag1 AND FLEXCAN_IFLAG_TX_BUF \<noteq> 0
              then (let (n, s) = can_get_echo_skb s;
                        s = s\<lparr>tx_bytes := tx_bytes s + n\<rparr>;
                        s = s\<lparr>tx_packets := tx_packets s + 1\<rparr>;
                        s = emit (CanLedEvent CAN_LED_EVENT_TX) s;
                        s = flexcan_write FLEXCAN_IFLAG_TX_BUF IFLAG1 s;
                        s = emit NetifWakeQueue s
                    in (IRQ_HANDLED, s))
              else (handled, s));
          (handled, s) =
             (if reg_esr AND FLEXCAN_ESR_ALL_INT \<noteq> 0
              then (IRQ_HANDLED, flexcan_write (reg_esr AND FLEXCAN_ESR_ALL_INT) ESR s)
              else (handled, s));
          s = (if reg_esr AND FLEXCAN_ESR_ERR_STATE \<noteq> 0 then emit Printk s else s);
          s = (if reg_esr AND FLEXCAN_ESR_ERR_BUS \<noteq> 0 then emit Printk s else s)
      in (handled, s))"

text \<open>The function ends with \<^verbatim>\<open>return IRQ_HANDLED;\<close>.\<close>

definition flexcan_napi_irq :: "flexcan_priv \<Rightarrow> irqreturn \<times> flexcan_priv" where
  "flexcan_napi_irq s =
     (let (handled, s) = flexcan_napi_irq_body s
      in (IRQ_HANDLED, s))"

text \<open>The conditions the dispatcher recognises in the two registers it reads at entry:
  FIFO available, FIFO overflow, transmission complete, or a status event bit.\<close>

definition irq_condition_present :: "u32 \<Rightarrow> u32 \<Rightarrow> bool" where
  "irq_condition_present reg_iflag1 reg_esr =
     (\<not> (reg_iflag1 AND FLEXCAN_IFLAG_RX_FIFO_AVAILABLE = 0 \<and>
         reg_iflag1 AND FLEXCAN_IFLAG_RX_FIFO_OVERFLOW = 0 \<and>
         reg_iflag1 AND FLEXCAN_IFLAG_TX_BUF = 0 \<and>
         reg_esr AND FLEXCAN_ESR_ALL_INT = 0))"

subsection \<open>Observations on the trace\<close>






text \<open>
  \<open>steps s s' es\<close>: the device \<open>s'\<close> is \<open>s\<close> after the events \<open>es\<close>, with the recorded
  state, the configuration and the surroundings unchanged.  \<open>quiet_steps\<close> are steps of
  register events only.
\<close>

definition steps :: "flexcan_priv \<Rightarrow> flexcan_priv \<Rightarrow> event list \<Rightarrow> bool" where
  "steps s s' es \<longleftrightarrow>
     trace s' = trace s @ es \<and> state s' = state s \<and> xceiver_kind s' = xceiver_kind s \<and>
     regulator_enable_rc s' = regulator_enable_rc s \<and>
     regulator_disable_rc s' = regulator_disable_rc s \<and>
     features s' = features s \<and> ctrlmode s' = ctrlmode s \<and> hw_read s' = hw_read s"










subsection \<open>Devices used as concrete inputs\<close>

definition zero_frame :: can_frame where
  "zero_frame = \<lparr>can_id = 0, can_dlc = 0, data = replicate 8 0\<rparr>"

text \<open>A stopped device at 500 kbit/s whose registers all read 0 and whose allocations
  all succeed with a zeroed frame.\<close>

definition quiet_priv :: flexcan_priv where
  "quiet_priv =
     \<lparr>state = CAN_STATE_STOPPED, ctrlmode = 0,
      bittiming = \<lparr>bitrate = 500000, prop_seg = 2, phase_seg1 = 3, phase_seg2 = 2,
                   sjw = 1, brp = 4\<rparr>,
      features = 0, reg_ctrl_default = 0, xceiver_kind = XceiverSwitch,
      echo_skb = None, skb_queue = [], skb_queue_len_max = 0,
      rx_packets = 0, rx_bytes = 0, rx_dropped = 0, rx_errors = 0, rx_over_errors = 0,
      tx_packets = 0, tx_bytes = 0, tx_dropped = 0, tx_errors = 0,
      bus_error = 0, error_warning = 0, error_passive = 0,
      hw_read = (\<lambda>n r. 0), nreads = 0,
      skb_alloc = (\<lambda>n. Some zero_frame), nallocs = 0,
      regulator_enable_rc = 0, regulator_disable_rc = 0,
      trace = []\<rparr>"

text \<open>The same device when no buffer can be allocated.\<close>

definition nomem_priv :: flexcan_priv where
  "nomem_priv = quiet_priv\<lparr>skb_alloc := (\<lambda>n. None)\<rparr>"


text \<open>A device whose receive queue holds exactly as many frames as its maximum depth
  (128, the depth set up for the driver's polling weight), while the hardware FIFO always
  reports a frame available.\<close>

definition full_queue_priv :: flexcan_priv where
  "full_queue_priv =
     quiet_priv\<lparr>skb_queue_len_max := 128, skb_queue := replicate 128 zero_frame,
       hw_read := (\<lambda>n r. if r = IFLAG1 then FLEXCAN_IFLAG_RX_FIFO_AVAILABLE else 0)\<rparr>"

text \<open>Bit timing with a phase segment 1 of 9 time quanta, which the advertised limit
  \<^verbatim>\<open>tseg1_max = 16\<close> on the sum of propagation segment and phase segment 1 admits.\<close>

definition wide_pseg1_bt :: can_bittiming where
  "wide_pseg1_bt =
     \<lparr>bitrate = 500000, prop_seg = 1, phase_seg1 = 9, phase_seg2 = 2, sjw = 1, brp = 1\<rparr>"

text \<open>An extended-format data frame with 8 bytes of payload.\<close>

definition eff_frame :: can_frame where
  "eff_frame = \<lparr>can_id = 0x92345678, can_dlc = 8,
                 data = [0x11, 0x22, 0x33, 0x44, 0x55, 0x66, 0x77, 0x88]\<rparr>"



section \<open>Properties\<close>

subsection \<open>Bit fields\<close>

lemma mask_0x30: "(0x30::u32) = push_bit 4 (mask 2)"
  by (simp add: mask_eq_exp_minus_1)

lemma mask_0x3: "(3::u32) = mask 2"
  by (simp add: mask_eq_exp_minus_1)

lemma flt_conf_field: "(x::u32) AND 0x30 = push_bit 4 (drop_bit 4 x AND 3)"
  unfolding mask_0x30 mask_0x3
  by (rule bit_word_eqI) (auto simp: bit_simps)

lemma and_3_cases: "(y::u32) AND 3 = 0 \<or> y AND 3 = 1 \<or> y AND 3 = 2 \<or> y AND 3 = 3"
proof -
  have "unat (y AND 3) \<le> 3"
    using word_and_le1 [of y 3] by (simp add: word_le_nat_alt)
  then have "unat (y AND 3) = 0 \<or> unat (y AND 3) = 1 \<or> unat (y AND 3) = 2 \<or> unat (y AND 3) = 3"
    by arith
  then show ?thesis
    by (auto simp: word_unat_eq_iff)
qed

lemma flt_conf_iffs:
  "((x::u32) AND 0x30 = 0) \<longleftrightarrow> (drop_bit 4 x AND 3 = 0)"
  "((x::u32) AND 0x30 = 0x10) \<longleftrightarrow> (drop_bit 4 x AND 3 = 1)"
proof -
  define y where "y = drop_bit 4 x AND 3"
  have eq: "x AND 0x30 = push_bit 4 y"
    unfolding y_def by (rule flt_conf_field)
  have "y = 0 \<or> y = 1 \<or> y = 2 \<or> y = 3"
    unfolding y_def by (rule and_3_cases)
  then have "(push_bit 4 y = 0 \<longleftrightarrow> y = 0) \<and> (push_bit 4 y = 0x10 \<longleftrightarrow> y = 1)"
    by (elim disjE) simp_all
  then show "(x AND 0x30 = 0) \<longleftrightarrow> (drop_bit 4 x AND 3 = 0)"
    and "(x AND 0x30 = 0x10) \<longleftrightarrow> (drop_bit 4 x AND 3 = 1)"
    unfolding eq y_def by simp_all
qed

lemma wrn_bits_iff:
  "((x::u32) AND (0x200 OR 0x100) = 0) \<longleftrightarrow> (x AND 0x200 = 0 \<and> x AND 0x100 = 0)"
proof -
  have "x AND (0x200 OR 0x100) = (x AND 0x200) OR (x AND 0x100)"
    by (rule bit.conj_disj_distrib)
  then show ?thesis by (simp only: or_eq_0_iff)
qed

lemma or_or_and_absorb: "((x OR a) OR b) AND a = (a::u32)"
  by (simp add: bit_eq_iff bit_and_iff bit_or_iff) blast

subsection \<open>Error-state monitor\<close>

lemmas poll_state_defs = flexcan_poll_state_def do_state_def do_state_from_active_def
  do_state_from_warning_def flexcan_get_berr_counter_def flexcan_read_def emit_def
  alloc_skb_def Let_def

text \<open>
  C1.  For every value of the status register, the state that \<^verbatim>\<open>flexcan_poll_state\<close>
  derives is the one the table gives for the 2-bit fault-confinement field (bits 5:4) and
  the two warning bits \<^verbatim>\<open>TX_WRN\<close> and \<^verbatim>\<open>RX_WRN\<close>: field 0 (active) with no warning bit is
  ERROR_ACTIVE, field 0 with a warning bit is ERROR_WARNING, field 1 (passive) is
  ERROR_PASSIVE, and the field values 2 and 3 are BUS_OFF.  No other bit of the register
  has an influence.
\<close>

theorem flexcan_poll_state_derivation:
  "flexcan_new_state reg_esr =
     spec_state_table (esr_flt_conf reg_esr)
       (reg_esr AND FLEXCAN_ESR_TX_WRN \<noteq> 0) (reg_esr AND FLEXCAN_ESR_RX_WRN \<noteq> 0)"
  unfolding flexcan_new_state_def spec_state_table_def esr_flt_conf_def Let_def
    flt_conf_iffs wrn_bits_iff
  by simp

theorem flexcan_poll_state_derivation_witness:
  "flexcan_new_state 0x00040242 = CAN_STATE_ERROR_WARNING \<and>
   flexcan_new_state 0x00040312 = CAN_STATE_ERROR_PASSIVE \<and>
   flexcan_new_state 0x00000020 = CAN_STATE_BUS_OFF \<and>
   flexcan_new_state 0x00000030 = CAN_STATE_BUS_OFF \<and>
   flexcan_new_state 0x000000c0 = CAN_STATE_ERROR_ACTIVE"
  using flexcan_poll_state_derivation [of "0x00040242"]
    flexcan_poll_state_derivation [of "0x00040312"]
    flexcan_poll_state_derivation [of "0x00000020"]
    flexcan_poll_state_derivation [of "0x00000030"]
    flexcan_poll_state_derivation [of "0x000000c0"]
  by (simp add: spec_state_table_def esr_flt_conf_def)

text \<open>
  C2, as amended.  When the derived state is BUS_OFF and the recorded state is not:
  if the buffer for the diagnostic frame can be allocated, \<^verbatim>\<open>flexcan_poll_state\<close>
  signals link-down (\<^verbatim>\<open>can_bus_off\<close>) exactly once, then delivers exactly one diagnostic
  frame, which has the bus-off bit set, and records BUS_OFF; if the allocation fails it
  signals nothing, delivers nothing and leaves the recorded state as it was.  When the
  recorded state is BUS_OFF already, the function returns 0 and leaves the device
  untouched: no signal, no frame, and nothing is logged either.
\<close>

theorem flexcan_poll_state_bus_off:
  assumes "flexcan_new_state reg_esr = CAN_STATE_BUS_OFF"
  shows "(state s \<noteq> CAN_STATE_BUS_OFF \<and> skb_alloc s (nallocs s) \<noteq> None \<longrightarrow>
            (\<exists>cf. trace (snd (flexcan_poll_state reg_esr s)) =
                     trace s @ [CanBusOff, NetifReceiveSkb cf] \<and>
                   can_id cf AND CAN_ERR_BUSOFF = CAN_ERR_BUSOFF) \<and>
            state (snd (flexcan_poll_state reg_esr s)) = CAN_STATE_BUS_OFF \<and>
            fst (flexcan_poll_state reg_esr s) = 1) \<and>
         (state s \<noteq> CAN_STATE_BUS_OFF \<and> skb_alloc s (nallocs s) = None \<longrightarrow>
            trace (snd (flexcan_poll_state reg_esr s)) = trace s \<and>
            state (snd (flexcan_poll_state reg_esr s)) = state s \<and>
            fst (flexcan_poll_state reg_esr s) = 0) \<and>
         (state s = CAN_STATE_BUS_OFF \<longrightarrow> flexcan_poll_state reg_esr s = (0, s))"
proof (intro conjI impI)
  assume "state s = CAN_STATE_BUS_OFF"
  with assms show "flexcan_poll_state reg_esr s = (0, s)"
    by (simp add: flexcan_poll_state_def)
next
  assume a: "state s \<noteq> CAN_STATE_BUS_OFF \<and> skb_alloc s (nallocs s) = None"
  with assms show "trace (snd (flexcan_poll_state reg_esr s)) = trace s"
    and "state (snd (flexcan_poll_state reg_esr s)) = state s"
    and "fst (flexcan_poll_state reg_esr s) = 0"
    by (simp_all add: flexcan_poll_state_def alloc_skb_def)
next
  assume a: "state s \<noteq> CAN_STATE_BUS_OFF \<and> skb_alloc s (nallocs s) \<noteq> None"
  then obtain cf0 where cf0: "skb_alloc s (nallocs s) = Some cf0" by auto
  from assms a cf0
  show "\<exists>cf. trace (snd (flexcan_poll_state reg_esr s)) =
               trace s @ [CanBusOff, NetifReceiveSkb cf] \<and>
             can_id cf AND CAN_ERR_BUSOFF = CAN_ERR_BUSOFF"
    by (cases "state s") (simp_all add: poll_state_defs split_def)
  from assms a cf0
  show "state (snd (flexcan_poll_state reg_esr s)) = CAN_STATE_BUS_OFF"
    by (cases "state s") (simp_all add: poll_state_defs split_def)
  from assms a cf0
  show "fst (flexcan_poll_state reg_esr s) = 1"
    by (cases "state s") (simp_all add: poll_state_defs split_def)
qed

theorem flexcan_poll_state_bus_off_witness:
  "flexcan_new_state 0x20 = CAN_STATE_BUS_OFF \<and>
   state (quiet_priv\<lparr>state := CAN_STATE_ERROR_PASSIVE\<rparr>) \<noteq> CAN_STATE_BUS_OFF \<and>
   skb_alloc (quiet_priv\<lparr>state := CAN_STATE_ERROR_PASSIVE\<rparr>) 0 \<noteq> None \<and>
   trace (snd (flexcan_poll_state 0x20 (quiet_priv\<lparr>state := CAN_STATE_ERROR_PASSIVE\<rparr>))) =
     [CanBusOff, NetifReceiveSkb (zero_frame\<lparr>can_id := CAN_ERR_BUSOFF\<rparr>)] \<and>
   state (snd (flexcan_poll_state 0x20 (quiet_priv\<lparr>state := CAN_STATE_ERROR_PASSIVE\<rparr>))) =
     CAN_STATE_BUS_OFF \<and>
   trace (snd (flexcan_poll_state 0x20 nomem_priv)) = [] \<and>
   flexcan_poll_state 0x20 (quiet_priv\<lparr>state := CAN_STATE_BUS_OFF\<rparr>) =
     (0, quiet_priv\<lparr>state := CAN_STATE_BUS_OFF\<rparr>)"
proof -
  have h: "flexcan_new_state 0x20 = CAN_STATE_BUS_OFF"
    by (simp add: flexcan_new_state_def)
  show ?thesis
    using h flexcan_poll_state_bus_off [OF h, of "quiet_priv\<lparr>state := CAN_STATE_ERROR_PASSIVE\<rparr>"]
      flexcan_poll_state_bus_off [OF h, of nomem_priv]
      flexcan_poll_state_bus_off [OF h, of "quiet_priv\<lparr>state := CAN_STATE_BUS_OFF\<rparr>"]
    by (simp add: quiet_priv_def nomem_priv_def zero_frame_def poll_state_defs split_def)
qed

text \<open>
  The claim as stated fails in two places.  With the status register at the bus-off
  field value and the recorded state STOPPED, a failed buffer allocation makes
  \<^verbatim>\<open>flexcan_poll_state\<close> return without any link-down signal or frame.  And with the
  recorded state BUS_OFF already, nothing is logged: the trace stays empty.
\<close>

theorem flexcan_poll_state_bus_off_counterexample:
  "flexcan_new_state 0x20 = CAN_STATE_BUS_OFF \<and>
   state nomem_priv \<noteq> CAN_STATE_BUS_OFF \<and>
   count_list (trace (snd (flexcan_poll_state 0x20 nomem_priv))) CanBusOff = 0 \<and>
   trace (snd (flexcan_poll_state 0x20 nomem_priv)) = [] \<and>
   state (snd (flexcan_poll_state 0x20 nomem_priv)) = CAN_STATE_STOPPED \<and>
   count_list (trace (snd (flexcan_poll_state 0x20 (quiet_priv\<lparr>state := CAN_STATE_BUS_OFF\<rparr>))))
     NetdevErr = 0"
  by (simp add: quiet_priv_def nomem_priv_def flexcan_new_state_def flexcan_poll_state_def
      alloc_skb_def)

text \<open>
  C10.  Whenever \<^verbatim>\<open>do_state\<close> synthesizes a warning or passive diagnostic frame (a
  transition from ERROR_ACTIVE to ERROR_WARNING, ERROR_PASSIVE or BUS_OFF, or from
  ERROR_WARNING to ERROR_PASSIVE or BUS_OFF), the frame carries the controller class
  bit, and its second data byte blames the transmit side exactly when the transmit error
  counter is strictly larger than the receive error counter; in particular equal
  counters blame the receive side.  The counters are the two low bytes of the error
  counter register read by \<^verbatim>\<open>flexcan_get_berr_counter\<close>; \<open>cf\<close> is the frame of the
  allocated buffer, with its 8 data bytes.
\<close>

theorem do_state_blames_rx_on_tie:
  assumes "length (data cf) = 8"
    and "(state s = CAN_STATE_ERROR_ACTIVE \<and>
            new_state \<in> {CAN_STATE_ERROR_WARNING, CAN_STATE_ERROR_PASSIVE, CAN_STATE_BUS_OFF})
         \<or> (state s = CAN_STATE_ERROR_WARNING \<and>
            new_state \<in> {CAN_STATE_ERROR_PASSIVE, CAN_STATE_BUS_OFF})"
  shows "(let bec = fst (flexcan_get_berr_counter s); cf' = fst (do_state cf new_state s)
          in can_id cf' AND CAN_ERR_CRTL = CAN_ERR_CRTL \<and>
             (txerr bec > rxerr bec \<longrightarrow>
                data cf' ! 1 \<in> {CAN_ERR_CRTL_TX_WARNING, CAN_ERR_CRTL_TX_PASSIVE}) \<and>
             (txerr bec = rxerr bec \<longrightarrow>
                data cf' ! 1 \<in> {CAN_ERR_CRTL_RX_WARNING, CAN_ERR_CRTL_RX_PASSIVE}) \<and>
             (txerr bec < rxerr bec \<longrightarrow>
                data cf' ! 1 \<in> {CAN_ERR_CRTL_RX_WARNING, CAN_ERR_CRTL_RX_PASSIVE}))"
proof -
  have "(let bec = fst (flexcan_get_berr_counter s); cf' = fst (do_state cf new_state s)
         in can_id cf' AND CAN_ERR_CRTL = CAN_ERR_CRTL \<and>
            (txerr bec > rxerr bec \<longrightarrow>
               data cf' ! 1 \<in> {CAN_ERR_CRTL_TX_WARNING, CAN_ERR_CRTL_TX_PASSIVE}) \<and>
            (\<not> txerr bec > rxerr bec \<longrightarrow>
               data cf' ! 1 \<in> {CAN_ERR_CRTL_RX_WARNING, CAN_ERR_CRTL_RX_PASSIVE}))"
    using assms
    by (cases new_state) (auto simp add: poll_state_defs split_def or_or_and_absorb)
  moreover have "x < y \<Longrightarrow> \<not> y < x" for x y :: u16
    by simp
  moreover have "\<not> x < x" for x :: u16
    by simp
  ultimately show ?thesis
    unfolding Let_def by metis
qed

theorem do_state_blames_rx_on_tie_witness:
  "length (data zero_frame) = 8 \<and>
   state (quiet_priv\<lparr>state := CAN_STATE_ERROR_ACTIVE\<rparr>) = CAN_STATE_ERROR_ACTIVE \<and>
   txerr (fst (flexcan_get_berr_counter (quiet_priv\<lparr>state := CAN_STATE_ERROR_ACTIVE\<rparr>))) =
   rxerr (fst (flexcan_get_berr_counter (quiet_priv\<lparr>state := CAN_STATE_ERROR_ACTIVE\<rparr>))) \<and>
   data (fst (do_state zero_frame CAN_STATE_ERROR_WARNING
                (quiet_priv\<lparr>state := CAN_STATE_ERROR_ACTIVE\<rparr>))) ! 1 = CAN_ERR_CRTL_RX_WARNING \<and>
   data (fst (do_state zero_frame CAN_STATE_ERROR_PASSIVE
                (quiet_priv\<lparr>state := CAN_STATE_ERROR_ACTIVE\<rparr>))) ! 1 = CAN_ERR_CRTL_RX_PASSIVE"
  using do_state_blames_rx_on_tie [of zero_frame "quiet_priv\<lparr>state := CAN_STATE_ERROR_ACTIVE\<rparr>"
      CAN_STATE_ERROR_WARNING]
    do_state_blames_rx_on_tie [of zero_frame "quiet_priv\<lparr>state := CAN_STATE_ERROR_ACTIVE\<rparr>"
      CAN_STATE_ERROR_PASSIVE]
  by (simp add: quiet_priv_def zero_frame_def poll_state_defs split_def)


subsection \<open>Receive queue\<close>

lemmas rx_defs = can_rx_offload_offload_one_def flexcan_mailbox_read_def
  flexcan_mailbox_decode_def flexcan_read_def flexcan_write_def emit_def alloc_skb_def
  skb_queue_tail_def Let_def

text \<open>
  C3.  The receive queue can grow beyond \<^verbatim>\<open>skb_queue_len_max\<close>: the test in
  \<^verbatim>\<open>can_rx_offload_offload_one\<close> is \<^verbatim>\<open>skb_queue_len > skb_queue_len_max\<close>, so a queue
  that already holds the maximum of 128 frames still accepts the next frame.  One
  interrupt-time drain turns it into a queue of 129 frames; only the frame after that is
  discarded and counted in \<^verbatim>\<open>rx_dropped\<close>.
\<close>

theorem can_rx_offload_queue_exceeds_max:
  "length (skb_queue full_queue_priv) = unat (skb_queue_len_max full_queue_priv) \<and>
   fst (can_rx_offload_irq_offload_fifo full_queue_priv) = 1 \<and>
   length (skb_queue (snd (can_rx_offload_irq_offload_fifo full_queue_priv))) = 129 \<and>
   rx_dropped (snd (can_rx_offload_irq_offload_fifo full_queue_priv)) = 1"
  by (simp add: full_queue_priv_def quiet_priv_def can_rx_offload_irq_offload_fifo_def
      can_rx_offload_irq_offload_fifo_loop.simps rx_defs split_def zero_frame_def)

text \<open>
  C4.  For the driver's polling weight of 10, \<^verbatim>\<open>can_rx_offload_init_queue\<close> sets the
  maximum queue depth to 128 (\<^verbatim>\<open>fls(10)\<close> is 4, \<^verbatim>\<open>2 << 4\<close> is 32, times 4), whereas
  four times the weight rounded up to the next power of two is 64.
\<close>

theorem can_rx_offload_init_queue_weight_10:
  "skb_queue_len_max (snd (can_rx_offload_init_queue FLEXCAN_NAPI_WEIGHT s)) = 128 \<and>
   spec_queue_len_max (unat FLEXCAN_NAPI_WEIGHT) = 64"
  by (simp add: can_rx_offload_init_queue_def fls_def fls_nat.simps spec_queue_len_max_def
      roundup_pow_of_two_def)

subsection \<open>Interrupt dispatcher\<close>

text \<open>The local variable \<^verbatim>\<open>handled\<close> does record whether a recognised condition was
  present in the two registers read at entry.\<close>

lemma flexcan_napi_irq_body_handled:
  "fst (flexcan_napi_irq_body s) = IRQ_HANDLED \<longleftrightarrow>
     irq_condition_present (hw_read s (nreads s) IFLAG1) (hw_read s (Suc (nreads s)) ESR)"
  by (simp add: flexcan_napi_irq_body_def irq_condition_present_def flexcan_read_def
      Let_def split_def)

text \<open>The function returns \<^verbatim>\<open>IRQ_HANDLED\<close> whatever the registers hold.\<close>

lemma flexcan_napi_irq_always_handled: "fst (flexcan_napi_irq s) = IRQ_HANDLED"
  by (simp add: flexcan_napi_irq_def split_def)

text \<open>
  C5.  When both the interrupt flag register and the status register read 0, no
  recognised condition is present and the local variable \<^verbatim>\<open>handled\<close> is still
  \<^verbatim>\<open>IRQ_NONE\<close> at the end, yet \<^verbatim>\<open>flexcan_napi_irq\<close> returns \<^verbatim>\<open>IRQ_HANDLED\<close>.
\<close>

theorem flexcan_napi_irq_handled_without_cause:
  "\<not> irq_condition_present (hw_read quiet_priv 0 IFLAG1) (hw_read quiet_priv 1 ESR) \<and>
   fst (flexcan_napi_irq_body quiet_priv) = IRQ_NONE \<and>
   fst (flexcan_napi_irq quiet_priv) = IRQ_HANDLED"
  by (simp add: quiet_priv_def flexcan_napi_irq_def flexcan_napi_irq_body_def
      irq_condition_present_def flexcan_read_def Let_def split_def)


subsection \<open>Bit timing\<close>

lemma ctrl_clear_mask:
  "(0xFFFF108F::u32) = push_bit 24 (mask 8) OR push_bit 22 (mask 2) OR push_bit 19 (mask 3) OR
      push_bit 16 (mask 3) OR mask 3 OR push_bit 12 1 OR push_bit 7 1 OR push_bit 3 1"
  by (simp add: mask_eq_exp_minus_1)

lemma field_core:
  fixes reg a b c d e f :: u32
  assumes fb: "\<And>n. bit f n \<Longrightarrow> n = 12 \<or> n = 7 \<or> n = 3"
  defines "R \<equiv> ((reg AND NOT 0xFFFF108F) OR
              (push_bit 24 (take_bit 8 a) OR push_bit 19 (take_bit 3 b) OR
               push_bit 16 (take_bit 3 c) OR push_bit 22 (take_bit 2 d) OR take_bit 3 e)) OR f"
  shows "take_bit 8 (drop_bit 24 R) = take_bit 8 a"
    and "take_bit 3 (drop_bit 19 R) = take_bit 3 b"
    and "take_bit 3 (drop_bit 16 R) = take_bit 3 c"
    and "take_bit 2 (drop_bit 22 R) = take_bit 2 d"
    and "take_bit 3 R = take_bit 3 e"
proof -
  show "take_bit 8 (drop_bit 24 R) = take_bit 8 a"
    unfolding R_def ctrl_clear_mask
    by (rule bit_word_eqI) (auto simp: bit_simps dest: fb)
  show "take_bit 3 (drop_bit 19 R) = take_bit 3 b"
    unfolding R_def ctrl_clear_mask
    by (rule bit_word_eqI) (auto simp: bit_simps dest: fb)
  show "take_bit 3 (drop_bit 16 R) = take_bit 3 c"
    unfolding R_def ctrl_clear_mask
    by (rule bit_word_eqI) (auto simp: bit_simps dest: fb)
  show "take_bit 2 (drop_bit 22 R) = take_bit 2 d"
    unfolding R_def ctrl_clear_mask
    by (rule bit_word_eqI) (auto simp: bit_simps dest: fb)
  show "take_bit 3 R = take_bit 3 e"
    unfolding R_def ctrl_clear_mask
    by (rule bit_word_eqI) (auto simp: bit_simps dest: fb)
qed

lemma bit_push_bit_1: "bit (push_bit k (1::u32)) n \<longleftrightarrow> n = k \<and> k < 32"
  by (simp only: bit_push_bit_iff bit_1_iff possible_bit_word) auto

lemma bit_single:
  "bit (0x1000::u32) n \<longleftrightarrow> n = 12"
  "bit (0x80::u32) n \<longleftrightarrow> n = 7"
  "bit (0x8::u32) n \<longleftrightarrow> n = 3"
proof -
  have e: "(0x1000::u32) = push_bit 12 1" "(0x80::u32) = push_bit 7 1" "(0x8::u32) = push_bit 3 1"
    by simp_all
  show "bit (0x1000::u32) n \<longleftrightarrow> n = 12"
    by (simp only: e(1) bit_push_bit_1) simp
  show "bit (0x80::u32) n \<longleftrightarrow> n = 7"
    by (simp only: e(2) bit_push_bit_1) simp
  show "bit (0x8::u32) n \<longleftrightarrow> n = 3"
    by (simp only: e(3) bit_push_bit_1) simp
qed

lemma flag_bits:
  fixes l m p :: bool
  assumes "bit ((if l then 0x1000 else 0) OR (if m then 0x8 else 0) OR (if p then 0x80 else (0::u32))) n"
  shows "n = 12 \<or> n = 7 \<or> n = 3"
proof -
  from assms have "(l \<and> bit (0x1000::u32) n) \<or> (m \<and> bit (0x8::u32) n) \<or> (p \<and> bit (0x80::u32) n)"
    by (simp only: bit_or_iff split: if_splits) (auto simp only: bit_0_eq bot_apply bot_bool_def)
  then show ?thesis
    by (simp only: bit_single) blast
qed


lemma and_numeral_masks:
  "(x::u32) AND 0xff = take_bit 8 x"
  "(x::u32) AND 0x07 = take_bit 3 x"
  "(x::u32) AND 0x03 = take_bit 2 x"
  "(x::u32) AND 0xf = take_bit 4 x"
  by (simp_all add: take_bit_eq_mask mask_eq_exp_minus_1)

lemma flexcan_bittiming_reg_alt:
  "flexcan_bittiming_reg bt mode reg =
     ((reg AND NOT 0xFFFF108F) OR
      (push_bit 24 (take_bit 8 (brp bt - 1)) OR push_bit 19 (take_bit 3 (phase_seg1 bt - 1)) OR
       push_bit 16 (take_bit 3 (phase_seg2 bt - 1)) OR push_bit 22 (take_bit 2 (sjw bt - 1)) OR
       take_bit 3 (prop_seg bt - 1))) OR
     ((if mode AND CAN_CTRLMODE_LOOPBACK \<noteq> 0 then 0x1000 else 0) OR
      (if mode AND CAN_CTRLMODE_LISTENONLY \<noteq> 0 then 0x8 else 0) OR
      (if mode AND CAN_CTRLMODE_3_SAMPLES \<noteq> 0 then 0x80 else 0))"
  unfolding flexcan_bittiming_reg_def FLEXCAN_CTRL_PRESDIV_def FLEXCAN_CTRL_RJW_def
    FLEXCAN_CTRL_PSEG1_def FLEXCAN_CTRL_PSEG2_def FLEXCAN_CTRL_PROPSEG_def Let_def
    and_numeral_masks
  by (simp add: or.assoc)

lemma pred_less:
  fixes x c :: u32
  assumes "1 \<le> x" "x \<le> c"
  shows "x - 1 < c"
proof -
  have "unat (x - 1) = unat x - 1"
    using assms(1) by (simp add: unat_sub)
  moreover have "unat x \<le> unat c" "1 \<le> unat x"
    using assms by (simp_all add: word_le_nat_alt)
  ultimately have "unat (x - 1) < unat c" by arith
  then show ?thesis
    by (simp add: word_less_nat_alt)
qed

lemma field_fits:
  fixes x :: u32
  shows "1 \<le> x \<Longrightarrow> x \<le> 256 \<Longrightarrow> take_bit 8 (x - 1) = x - 1"
    and "1 \<le> x \<Longrightarrow> x \<le> 8 \<Longrightarrow> take_bit 3 (x - 1) = x - 1"
    and "1 \<le> x \<Longrightarrow> x \<le> 4 \<Longrightarrow> take_bit 2 (x - 1) = x - 1"
proof -
  have "y < 2 ^ k \<Longrightarrow> take_bit k y = y" for y :: u32 and k
    by (simp add: take_bit_eq_mask less_mask_eq)
  note tb = this
  show "1 \<le> x \<Longrightarrow> x \<le> 256 \<Longrightarrow> take_bit 8 (x - 1) = x - 1"
    using pred_less [of x 256] by (intro tb) simp
  show "1 \<le> x \<Longrightarrow> x \<le> 8 \<Longrightarrow> take_bit 3 (x - 1) = x - 1"
    using pred_less [of x 8] by (intro tb) simp
  show "1 \<le> x \<Longrightarrow> x \<le> 4 \<Longrightarrow> take_bit 2 (x - 1) = x - 1"
    using pred_less [of x 4] by (intro tb) simp
qed

lemma bittiming_fields:
  "take_bit 8 (drop_bit 24 (flexcan_bittiming_reg bt mode reg)) = take_bit 8 (brp bt - 1)"
  "take_bit 3 (drop_bit 19 (flexcan_bittiming_reg bt mode reg)) = take_bit 3 (phase_seg1 bt - 1)"
  "take_bit 3 (drop_bit 16 (flexcan_bittiming_reg bt mode reg)) = take_bit 3 (phase_seg2 bt - 1)"
  "take_bit 2 (drop_bit 22 (flexcan_bittiming_reg bt mode reg)) = take_bit 2 (sjw bt - 1)"
  "take_bit 3 (flexcan_bittiming_reg bt mode reg) = take_bit 3 (prop_seg bt - 1)"
  unfolding flexcan_bittiming_reg_alt
  by (rule field_core, erule flag_bits)+

text \<open>
  C7, as amended.  For a prescaler of 1 to 256, a propagation segment of 1 to 8, a phase
  segment 1 of 1 to 8, a phase segment 2 of 2 to 8 and a sync jump width of 1 to 4,
  whatever the control register held before and whatever the operating-mode flags are,
  \<^verbatim>\<open>flexcan_set_bittiming\<close> writes the control register exactly once, and the bit
  fields of the value written are the prescaler minus 1, each segment length minus 1
  and the sync jump width minus 1.
\<close>

theorem flexcan_set_bittiming_roundtrip:
  assumes "1 \<le> brp (bittiming s)" "brp (bittiming s) \<le> 256"
    and "1 \<le> prop_seg (bittiming s)" "prop_seg (bittiming s) \<le> 8"
    and "1 \<le> phase_seg1 (bittiming s)" "phase_seg1 (bittiming s) \<le> 8"
    and "2 \<le> phase_seg2 (bittiming s)" "phase_seg2 (bittiming s) \<le> 8"
    and "1 \<le> sjw (bittiming s)" "sjw (bittiming s) \<le> 4"
  shows "\<exists>reg. trace (flexcan_set_bittiming s) = trace s @ [RegWrite CTRL reg] \<and>
           ctrl_presdiv reg = brp (bittiming s) - 1 \<and>
           ctrl_propseg reg = prop_seg (bittiming s) - 1 \<and>
           ctrl_pseg1 reg = phase_seg1 (bittiming s) - 1 \<and>
           ctrl_pseg2 reg = phase_seg2 (bittiming s) - 1 \<and>
           ctrl_rjw reg = sjw (bittiming s) - 1"
proof -
  define reg where
    "reg = flexcan_bittiming_reg (bittiming s) (ctrlmode s) (hw_read s (nreads s) CTRL)"
  have tr: "trace (flexcan_set_bittiming s) = trace s @ [RegWrite CTRL reg]"
    by (simp add: flexcan_set_bittiming_def flexcan_read_def flexcan_write_def emit_def
        reg_def)
  have "(1::u32) \<le> 2" by simp
  then have p2: "1 \<le> phase_seg2 (bittiming s)"
    using assms(7) by (rule order_trans)
  have "ctrl_presdiv reg = brp (bittiming s) - 1"
    unfolding ctrl_presdiv_def and_numeral_masks reg_def bittiming_fields
    using assms(1,2) by (rule field_fits)
  moreover have "ctrl_propseg reg = prop_seg (bittiming s) - 1"
    unfolding ctrl_propseg_def and_numeral_masks reg_def bittiming_fields
    using assms(3,4) by (rule field_fits)
  moreover have "ctrl_pseg1 reg = phase_seg1 (bittiming s) - 1"
    unfolding ctrl_pseg1_def and_numeral_masks reg_def bittiming_fields
    using assms(5,6) by (rule field_fits)
  moreover have "ctrl_pseg2 reg = phase_seg2 (bittiming s) - 1"
    unfolding ctrl_pseg2_def and_numeral_masks reg_def bittiming_fields
    using p2 assms(8) by (rule field_fits)
  moreover have "ctrl_rjw reg = sjw (bittiming s) - 1"
    unfolding ctrl_rjw_def and_numeral_masks reg_def bittiming_fields
    using assms(9,10) by (rule field_fits)
  ultimately show ?thesis
    using tr by (intro exI [of _ reg] conjI)
qed

theorem flexcan_set_bittiming_roundtrip_witness:
  "1 \<le> brp (bittiming quiet_priv) \<and> brp (bittiming quiet_priv) \<le> 256 \<and>
   1 \<le> prop_seg (bittiming quiet_priv) \<and> prop_seg (bittiming quiet_priv) \<le> 8 \<and>
   1 \<le> phase_seg1 (bittiming quiet_priv) \<and> phase_seg1 (bittiming quiet_priv) \<le> 8 \<and>
   2 \<le> phase_seg2 (bittiming quiet_priv) \<and> phase_seg2 (bittiming quiet_priv) \<le> 8 \<and>
   1 \<le> sjw (bittiming quiet_priv) \<and> sjw (bittiming quiet_priv) \<le> 4 \<and>
   trace (flexcan_set_bittiming quiet_priv) = [RegWrite CTRL 0x03110001] \<and>
   ctrl_presdiv 0x03110001 = 3 \<and> ctrl_propseg 0x03110001 = 1 \<and>
   ctrl_pseg1 0x03110001 = 2 \<and> ctrl_pseg2 0x03110001 = 1 \<and> ctrl_rjw 0x03110001 = 0"
  using flexcan_set_bittiming_roundtrip [of quiet_priv]
  by (simp add: quiet_priv_def flexcan_set_bittiming_def flexcan_read_def
      flexcan_write_def emit_def flexcan_bittiming_reg_def FLEXCAN_CTRL_PRESDIV_def
      FLEXCAN_CTRL_RJW_def FLEXCAN_CTRL_PSEG1_def FLEXCAN_CTRL_PSEG2_def
      FLEXCAN_CTRL_PROPSEG_def ctrl_presdiv_def ctrl_propseg_def ctrl_pseg1_def
      ctrl_pseg2_def ctrl_rjw_def)

text \<open>
  With a phase segment 1 of 9, inside the range of 1 to 16 of the claim, the field of
  the value written reads 0 and not 8: the macro \<^verbatim>\<open>FLEXCAN_CTRL_PSEG1\<close> keeps three
  bits of its argument.
\<close>

theorem flexcan_set_bittiming_roundtrip_counterexample:
  "1 \<le> phase_seg1 wide_pseg1_bt \<and> phase_seg1 wide_pseg1_bt \<le> 16 \<and>
   phase_seg1 wide_pseg1_bt - 1 = 8 \<and>
   trace (flexcan_set_bittiming (quiet_priv\<lparr>bittiming := wide_pseg1_bt\<rparr>)) =
     [RegWrite CTRL 0x10000] \<and>
   ctrl_pseg1 0x10000 = 0"
  by (simp add: wide_pseg1_bt_def quiet_priv_def flexcan_set_bittiming_def flexcan_read_def
      flexcan_write_def emit_def flexcan_bittiming_reg_def FLEXCAN_CTRL_PRESDIV_def
      FLEXCAN_CTRL_RJW_def FLEXCAN_CTRL_PSEG1_def FLEXCAN_CTRL_PSEG2_def
      FLEXCAN_CTRL_PROPSEG_def ctrl_pseg1_def)


subsection \<open>Frame encoding and decoding\<close>

lemma be32_bytes:
  fixes b0 b1 b2 b3 :: u8
  defines "W \<equiv> push_bit 24 (ucast b0) OR push_bit 16 (ucast b1) OR push_bit 8 (ucast b2) OR
                 (ucast b3 :: u32)"
  shows "ucast (drop_bit 24 W) = b0"
    and "ucast (drop_bit 16 W) = b1"
    and "ucast (drop_bit 8 W) = b2"
    and "ucast W = b3"
proof -
  have b8: "bit b m \<Longrightarrow> m < 8" for b :: u8 and m
    using bit_imp_le_length [of b m] by simp
  show "ucast (drop_bit 24 W) = b0"
    unfolding W_def by (rule bit_word_eqI) (auto simp: bit_simps dest: b8)
  show "ucast (drop_bit 16 W) = b1"
    unfolding W_def by (rule bit_word_eqI) (auto simp: bit_simps dest: b8)
  show "ucast (drop_bit 8 W) = b2"
    unfolding W_def by (rule bit_word_eqI) (auto simp: bit_simps dest: b8)
  show "ucast W = b3"
    unfolding W_def by (rule bit_word_eqI) (auto simp: bit_simps dest: b8)
qed

lemma eff_id_roundtrip:
  "(((x::u32) AND 0x1FFFFFFF) OR 0x80000000) AND 0x1FFFFFFF = x AND 0x1FFFFFFF"
  "(((x::u32) AND 0x1FFFFFFF) OR 0x80000000) AND 0x80000000 = 0x80000000"
  "(((x::u32) AND 0x1FFFFFFF) OR 0x80000000) AND 0x40000000 = 0"
  by (simp_all add: bit.conj_disj_distrib2 and.assoc)

lemma last_write_append:
  "last_write r (xs @ ys) =
     (case last_write r ys of Some v \<Rightarrow> Some v | None \<Rightarrow> last_write r xs)"
  by (induction xs) (auto split: option.splits)

lemma list8:
  assumes "length bs = 8"
  obtains b0 b1 b2 b3 b4 b5 b6 b7 where "bs = [b0, b1, b2, b3, b4, b5, b6, b7]"
proof -
  from assms obtain b0 b1 b2 b3 b4 b5 b6 b7 r where "bs = b0 # b1 # b2 # b3 # b4 # b5 # b6 # b7 # r"
    and "length r = 0"
    by (auto simp: numeral_eq_Suc length_Suc_conv)
  then show ?thesis using that by simp
qed

lemma store_be32_roundtrip:
  assumes "length bs = 8" "length cs = 8"
  shows "store_be32 (store_be32 cs 0 (be32_to_cpup bs 0)) 4 (be32_to_cpup bs 4) = bs"
proof -
  from assms(1) obtain b0 b1 b2 b3 b4 b5 b6 b7 where bs: "bs = [b0, b1, b2, b3, b4, b5, b6, b7]"
    by (rule list8)
  from assms(2) obtain c0 c1 c2 c3 c4 c5 c6 c7 where cs: "cs = [c0, c1, c2, c3, c4, c5, c6, c7]"
    by (rule list8)
  have st: "store_be32 (store_be32 cs 0 w0) 4 w1 =
      [ucast (drop_bit 24 w0), ucast (drop_bit 16 w0), ucast (drop_bit 8 w0), ucast w0,
       ucast (drop_bit 24 w1), ucast (drop_bit 16 w1), ucast (drop_bit 8 w1), ucast w1]"
    for w0 w1
    by (simp add: cs store_be32_def)
  have w0: "be32_to_cpup bs 0 =
      push_bit 24 (ucast b0) OR push_bit 16 (ucast b1) OR push_bit 8 (ucast b2) OR ucast b3"
    by (simp add: bs be32_to_cpup_def)
  have w1: "be32_to_cpup bs 4 =
      push_bit 24 (ucast b4) OR push_bit 16 (ucast b5) OR push_bit 8 (ucast b6) OR ucast b7"
    by (simp add: bs be32_to_cpup_def)
  show ?thesis
    unfolding st w0 w1 be32_bytes by (simp only: bs)
qed

lemma xmit_written:
  assumes "can_id cf AND CAN_EFF_FLAG \<noteq> 0" "can_id cf AND CAN_RTR_FLAG = 0" "can_dlc cf = 8"
  shows "written (MB_CAN_CTRL FLEXCAN_TX_BUF_ID) (trace (flexcan_start_xmit cf s)) = 0x0C680000"
    and "written (MB_CAN_ID FLEXCAN_TX_BUF_ID) (trace (flexcan_start_xmit cf s)) =
           can_id cf AND CAN_EFF_MASK"
    and "written (MB_DATA FLEXCAN_TX_BUF_ID 0) (trace (flexcan_start_xmit cf s)) =
           be32_to_cpup (data cf) 0"
    and "written (MB_DATA FLEXCAN_TX_BUF_ID (Suc 0)) (trace (flexcan_start_xmit cf s)) =
           be32_to_cpup (data cf) 4"
  using assms
  by (simp_all add: written_def flexcan_start_xmit_def can_dropped_invalid_skb_def
      can_put_echo_skb_def flexcan_write_def emit_def FLEXCAN_MB_CNT_CODE_def Let_def
      last_write_append)

text \<open>
  C6.  An extended-format frame with the remote-request flag clear and 8 bytes of
  payload is written by \<^verbatim>\<open>flexcan_start_xmit\<close> into the transmit mailbox; when the
  receive mailbox presents the words so written, \<^verbatim>\<open>flexcan_mailbox_read\<close> reports one
  frame and decodes it to the same 29-bit identifier, with the extended flag set and the
  remote flag clear, the same length code and the same payload bytes.  The buffer
  allocated for the received frame may hold anything beforehand.
\<close>

theorem flexcan_xmit_read_roundtrip:
  assumes "can_id cf AND CAN_EFF_FLAG \<noteq> 0" "can_id cf AND CAN_RTR_FLAG = 0"
    and "can_dlc cf = 8" "length (data cf) = 8"
    and "skb_alloc r (nallocs r) = Some cf0" "length (data cf0) = 8"
  shows "\<exists>cf' r'.
           flexcan_mailbox_read False
             (r\<lparr>hw_read := loopback_read (trace (flexcan_start_xmit cf s))\<rparr>) =
             ((1, Some cf'), r') \<and>
           can_id cf' AND CAN_EFF_MASK = can_id cf AND CAN_EFF_MASK \<and>
           can_id cf' AND CAN_EFF_FLAG = CAN_EFF_FLAG \<and>
           can_id cf' AND CAN_RTR_FLAG = 0 \<and>
           can_dlc cf' = can_dlc cf \<and>
           data cf' = data cf"
  using assms(3-6)
  by (simp add: flexcan_mailbox_read_def flexcan_mailbox_decode_def flexcan_read_def
      flexcan_write_def emit_def alloc_skb_def loopback_read_def Let_def
      xmit_written [OF assms(1-3)] get_can_dlc_def store_be32_roundtrip eff_id_roundtrip)

theorem flexcan_xmit_read_roundtrip_witness:
  "can_id eff_frame AND CAN_EFF_FLAG \<noteq> 0 \<and> can_id eff_frame AND CAN_RTR_FLAG = 0 \<and>
   can_dlc eff_frame = 8 \<and> length (data eff_frame) = 8 \<and>
   skb_alloc quiet_priv (nallocs quiet_priv) = Some zero_frame \<and>
   length (data zero_frame) = 8 \<and>
   fst (flexcan_mailbox_read False
          (quiet_priv\<lparr>hw_read := loopback_read (trace (flexcan_start_xmit eff_frame quiet_priv))\<rparr>)) =
     (1, Some eff_frame)"
  using flexcan_xmit_read_roundtrip [of eff_frame quiet_priv zero_frame quiet_priv]
  by (simp add: eff_frame_def zero_frame_def quiet_priv_def flexcan_mailbox_read_def
      flexcan_mailbox_decode_def flexcan_read_def flexcan_write_def emit_def alloc_skb_def
      loopback_read_def written_def flexcan_start_xmit_def can_dropped_invalid_skb_def
      can_put_echo_skb_def FLEXCAN_MB_CNT_CODE_def get_can_dlc_def store_be32_def
      be32_to_cpup_def Let_def)


subsection \<open>Chip control\<close>

text \<open>A polling loop whose condition holds at every read of the module configuration
  register runs for the whole time-out: one read and one delay per round.\<close>

lemma flexcan_poll_mcr_never:
  "(\<And>n. cond (hw_read s n MCR)) \<Longrightarrow>
   flexcan_poll_mcr cond d k s = s\<lparr>nreads := nreads s + k, trace := trace s @ replicate k d\<rparr>"
proof (induction k arbitrary: s)
  case 0
  then show ?case by simp
next
  case (Suc k)
  have "flexcan_poll_mcr cond d (Suc k) s =
        flexcan_poll_mcr cond d k (emit d (s\<lparr>nreads := Suc (nreads s)\<rparr>))"
    using Suc.prems by (simp add: flexcan_read_def)
  also have "\<dots> = (emit d (s\<lparr>nreads := Suc (nreads s)\<rparr>))
      \<lparr>nreads := nreads (emit d (s\<lparr>nreads := Suc (nreads s)\<rparr>)) + k,
       trace := trace (emit d (s\<lparr>nreads := Suc (nreads s)\<rparr>)) @ replicate k d\<rparr>"
    by (rule Suc.IH) (simp add: emit_def Suc.prems)
  also have "\<dots> = s\<lparr>nreads := nreads s + Suc k, trace := trace s @ replicate (Suc k) d\<rparr>"
    by (simp add: emit_def replicate_append_same)
  finally show ?case .
qed

text \<open>
  C8.  With a configured (non-zero) bit rate, if the freeze-acknowledge bit is clear at
  every read of the module configuration register, \<^verbatim>\<open>flexcan_chip_freeze\<close> returns
  \<^verbatim>\<open>-ETIMEDOUT\<close>.  Before that it has written the register once, with the halt bit set
  in the value it had read, and has then slept exactly \<open>10000000 div bitrate\<close> times
  for 100 to 200 microseconds: the number of polling rounds is the length of ten bit
  periods in microseconds, so it is inversely proportional to the bit rate.  Nothing is
  written after the time-out, so the halt bit stays as written.
\<close>

theorem flexcan_chip_freeze_timeout:
  assumes "bitrate (bittiming s) \<noteq> 0"
    and "\<forall>n. hw_read s n MCR AND FLEXCAN_MCR_FRZ_ACK = 0"
  shows "\<exists>s'. flexcan_chip_freeze s = Some (- ETIMEDOUT, s') \<and>
           trace s' = trace s @
             RegWrite MCR (hw_read s (nreads s) MCR OR FLEXCAN_MCR_HALT) #
             replicate (unat (10000000 div bitrate (bittiming s))) (UsleepRange 100 200) \<and>
           (hw_read s (nreads s) MCR OR FLEXCAN_MCR_HALT) AND FLEXCAN_MCR_HALT =
             FLEXCAN_MCR_HALT"
proof -
  define s1 where "s1 = flexcan_write (hw_read s (nreads s) MCR OR FLEXCAN_MCR_HALT) MCR
                          (s\<lparr>nreads := Suc (nreads s)\<rparr>)"
  have hw: "hw_read s1 = hw_read s"
    by (simp add: s1_def flexcan_write_def emit_def)
  have tr: "trace s1 = trace s @ [RegWrite MCR (hw_read s (nreads s) MCR OR FLEXCAN_MCR_HALT)]"
    by (simp add: s1_def flexcan_write_def emit_def)
  have c: "\<And>n. hw_read s1 n MCR AND FLEXCAN_MCR_FRZ_ACK = 0"
    using assms(2) by (simp add: hw)
  note p = flexcan_poll_mcr_never [of "\<lambda>r. r AND FLEXCAN_MCR_FRZ_ACK = 0" s1, OF c]
  have h: "(x OR FLEXCAN_MCR_HALT) AND FLEXCAN_MCR_HALT = FLEXCAN_MCR_HALT" for x :: u32
    by (simp add: bit_eq_iff bit_and_iff bit_or_iff)
  show ?thesis
    using assms
    by (simp add: flexcan_chip_freeze_def flexcan_read_def Let_def s1_def [symmetric] p hw h tr)
qed

theorem flexcan_chip_freeze_timeout_witness:
  "bitrate (bittiming quiet_priv) \<noteq> 0 \<and>
   (\<forall>n. hw_read quiet_priv n MCR AND FLEXCAN_MCR_FRZ_ACK = 0) \<and>
   map_option fst (flexcan_chip_freeze quiet_priv) = Some (- ETIMEDOUT) \<and>
   map_option (trace \<circ> snd) (flexcan_chip_freeze quiet_priv) =
     Some (RegWrite MCR FLEXCAN_MCR_HALT # replicate 20 (UsleepRange 100 200))"
proof -
  have a: "bitrate (bittiming quiet_priv) \<noteq> 0"
    by (simp add: quiet_priv_def)
  have b: "\<forall>n. hw_read quiet_priv n MCR AND FLEXCAN_MCR_FRZ_ACK = 0"
    by (simp add: quiet_priv_def)
  from flexcan_chip_freeze_timeout [OF a b] obtain s' where
    "flexcan_chip_freeze quiet_priv = Some (- ETIMEDOUT, s')"
    "trace s' = trace quiet_priv @
       RegWrite MCR (hw_read quiet_priv (nreads quiet_priv) MCR OR FLEXCAN_MCR_HALT) #
       replicate (unat (10000000 div bitrate (bittiming quiet_priv))) (UsleepRange 100 200)"
    by blast
  then show ?thesis
    using a b by (simp add: quiet_priv_def)
qed


subsection \<open>Starting the chip\<close>



lemma steps_read: "steps s (snd (flexcan_read r s)) []"
  by (simp add: steps_def flexcan_read_def)





















































end
